theory Spec2Isabelle
  imports Main "HOL-Library.Sublist"
begin

section \<open>Data model\<close>

text \<open>
  The two classes of \<^verbatim>\<open>key-stack.ts\<close> are constructors: they read a configuration and
  declare constructs into a construct tree. The tree is the state. It is kept as the list
  of declared constructs in the order of declaration, each under its path from the stack
  (the ids of its ancestors and its own id). The classes of the cdk library
  (\<^verbatim>\<open>Key\<close>, \<^verbatim>\<open>Role\<close>, \<^verbatim>\<open>PolicyStatement\<close>, the principals, ...) are data here: a
  constructor call is the value of its arguments, with two exceptions, where a
  constructor of the library refuses its arguments and the refusal is reachable from the
  configuration: a composite principal of no principal at all, and a log group whose
  retention in days is not positive. Both are errors of the model. What the library checks
  only when the tree is synthesised is not part of this development.
\<close>

type_synonym path = "string list"

text \<open>
  A string of the program is either known while the tree is assembled (\<open>Lit\<close>), or an
  attribute of a declared construct that the platform resolves at deployment (\<open>Attr\<close>:
  \<^verbatim>\<open>key.keyArn\<close>, \<^verbatim>\<open>resource.ref\<close>, ...), or a template literal with such an attribute
  inside (\<open>Concat\<close>).
\<close>

datatype tok = Lit string | Attr path string | Concat tok tok

datatype principal =
    AccountPrincipal string
  | ServicePrincipal string
  | AccountRootPrincipal
  | OrganizationPrincipal tok
  | CompositePrincipal "principal list"

datatype Effect = ALLOW | DENY

datatype cond_value = CondStr string | CondList "string list"

type_synonym conditions = "(string \<times> (string \<times> cond_value) list) list"

text \<open>The properties handed to \<^verbatim>\<open>new PolicyStatement\<close>; an omitted property is \<open>None\<close>.\<close>

record PolicyStatement =
  sid :: "string option"
  effect :: "Effect option"
  principals :: "principal list option"
  actions :: "string list"
  resources :: "tok list"
  conditions :: "conditions option"

text \<open>
  What a constructor can throw: \<open>Error\<close> with its message is the \<^verbatim>\<open>throw new Error\<close> of
  line 282; \<open>CompositePrincipalEmpty\<close> is the refusal of \<^verbatim>\<open>new CompositePrincipal()\<close>
  without an argument, \<open>RetentionNotPositive\<close> that of \<^verbatim>\<open>new LogGroup\<close> with a retention
  of at most zero days.
\<close>

datatype error = Error string | CompositePrincipalEmpty | RetentionNotPositive int

datatype RemovalPolicy = RETAIN | DESTROY

datatype RetentionDays = TEN_YEARS | Days int

record KeyProps =
  keyAlias :: string
  keyDescription :: string
  enableKeyRotation :: bool
  removalPolicy :: "RemovalPolicy option"

record RoleProps =
  roleName :: string
  assumedBy :: principal
  roleDescription :: "string option"
  inlinePolicies :: "(string \<times> PolicyStatement list) list"
  managedPolicies :: "path list"

record LogGroupProps =
  lg_retention :: RetentionDays
  lg_logGroupName :: tok
  lg_encryptionKey :: path
  lg_removalPolicy :: "RemovalPolicy option"

record ManagedPolicyProps =
  document :: "PolicyStatement list"
  managedPolicyName :: string

record CfnInstanceProfileProps =
  roles :: "tok list"
  instanceProfileName :: string

record ProviderStatement =
  provEffect :: string
  provAction :: "string list"
  provResource :: string

record CustomResourceProviderProps =
  codeDirectory :: string
  runtime :: string
  policyStatements :: "ProviderStatement list"

text \<open>The property set handed to the custom setup action (lines 403-410).\<close>

record SettingsProperties =
  prop_s3BucketName :: "string option"
  prop_s3KeyPrefix :: "string option"
  prop_s3EncryptionEnabled :: bool
  prop_cloudWatchLogGroupName :: tok
  prop_cloudWatchEncryptionEnabled :: bool
  prop_kmsKeyId :: tok

record CustomResourceProps =
  resourceType :: string
  serviceToken :: tok
  properties :: SettingsProperties

text \<open>
  A node of the construct tree. \<open>Construct\<close> is a bare scope (what \<^verbatim>\<open>super(scope, id)\<close>
  of a \<^verbatim>\<open>Construct\<close> subclass leaves); every other node is a resource declaration. A key
  carries the statements added to its resource policy, a role the rule suppressions
  attached to it.
\<close>

datatype construct =
    Construct
  | Organization
  | Key KeyProps "PolicyStatement list"
  | StringParameter string tok
  | Role RoleProps "(string \<times> string) list"
  | LogGroup LogGroupProps
  | ManagedPolicy ManagedPolicyProps
  | CfnInstanceProfile CfnInstanceProfileProps
  | CustomResourceProvider CustomResourceProviderProps
  | CustomResource CustomResourceProps "path list"

type_synonym tree = "(path \<times> construct) list"

text \<open>\<^verbatim>\<open>cdk.Stack.of(this)\<close>: partition, region, account and name of the stack, and the
  path of its node in the construct tree of the application (\<^verbatim>\<open>node.path\<close>); \<open>dirname\<close>
  is \<^verbatim>\<open>__dirname\<close>.\<close>

record StackEnv =
  stack_partition :: string
  stack_region :: string
  stack_account :: string
  stackName :: string
  stackPath :: string
  dirname :: string

subsection \<open>Operations on the tree\<close>

text \<open>\<^verbatim>\<open>new X(scope, id, props)\<close> declares the construct under the path of the scope
  extended by the id.\<close>

definition new :: "path \<Rightarrow> construct \<Rightarrow> tree \<Rightarrow> tree" where
  "new p c t = t @ [(p, c)]"

text \<open>\<^verbatim>\<open>node.tryFindChild(id)\<close>: the construct declared under the path, or undefined.\<close>

definition tryFindChild :: "path \<Rightarrow> tree \<Rightarrow> construct option" where
  "tryFindChild p t = map_of t p"

fun addStatement :: "PolicyStatement \<Rightarrow> construct \<Rightarrow> construct" where
  "addStatement s (Key kp pol) = Key kp (pol @ [s])"
| "addStatement s c = c"

text \<open>\<^verbatim>\<open>key.addToResourcePolicy(statement)\<close>, the key being the construct at the path.\<close>

definition addToResourcePolicy :: "path \<Rightarrow> PolicyStatement \<Rightarrow> tree \<Rightarrow> tree" where
  "addToResourcePolicy p s t = map (\<lambda>(q, c). if q = p then (q, addStatement s c) else (q, c)) t"

fun addSuppression :: "string \<times> string \<Rightarrow> construct \<Rightarrow> construct" where
  "addSuppression x (Role rp sps) = Role rp (sps @ [x])"
| "addSuppression x c = c"

text \<open>The path of a construct of the stack, as \<^verbatim>\<open>node.path\<close> gives it: the path of the
  stack and the ids down to the construct, separated by slashes.\<close>

definition constructPath :: "StackEnv \<Rightarrow> path \<Rightarrow> string" where
  "constructPath env q = stackPath env @ concat (map (\<lambda>i. ''/'' @ i) q)"

text \<open>
  \<^verbatim>\<open>NagSuppressions.addResourceSuppressionsByPath(stack, path, suppressions)\<close>: the
  suppressions go to every construct of the stack whose path, or whose path followed by
  \<^verbatim>\<open>/Resource\<close>, is the given one. A path that no construct has leaves the tree as it is.
\<close>

definition addResourceSuppressionsByPath ::
  "StackEnv \<Rightarrow> string \<Rightarrow> (string \<times> string) list \<Rightarrow> tree \<Rightarrow> tree" where
  "addResourceSuppressionsByPath env p xs t =
     map (\<lambda>(q, c). if constructPath env q = p \<or> constructPath env q @ ''/Resource'' = p
                   then (q, fold addSuppression xs c) else (q, c)) t"

text \<open>\<^verbatim>\<open>new CompositePrincipal(...principals)\<close>: the library throws when it is given no
  principal.\<close>

definition newCompositePrincipal :: "principal list \<Rightarrow> error + principal" where
  "newCompositePrincipal ps = (if ps = [] then Inl CompositePrincipalEmpty else Inr (CompositePrincipal ps))"

text \<open>\<^verbatim>\<open>new LogGroup(scope, id, props)\<close>: the library throws when the retention is a
  number of days that is not positive; \<^verbatim>\<open>RetentionDays.TEN_YEARS\<close> is positive.\<close>

definition newLogGroup :: "path \<Rightarrow> LogGroupProps \<Rightarrow> tree \<Rightarrow> error + tree" where
  "newLogGroup p lp t =
     (case lg_retention lp of
        Days n \<Rightarrow> if n \<le> 0 then Inl (RetentionNotPositive n) else Inr (new p (LogGroup lp) t)
      | TEN_YEARS \<Rightarrow> Inr (new p (LogGroup lp) t))"

text \<open>A JavaScript string that may be undefined: falsy when undefined or empty; inside a
  template literal undefined prints as its name.\<close>

definition truthy :: "string option \<Rightarrow> bool" where
  "truthy v = (case v of None \<Rightarrow> False | Some s \<Rightarrow> s \<noteq> [])"

definition str :: "string option \<Rightarrow> string" where
  "str v = (case v of None \<Rightarrow> ''undefined'' | Some s \<Rightarrow> s)"

section \<open>The encryption-key provisioner: class KeyStack\<close>

text \<open>The fields of \<^verbatim>\<open>AcceleratorStackProps\<close> that the constructor reads:
  \<^verbatim>\<open>organizationConfig.enable\<close>, \<^verbatim>\<open>accountsConfig?.accountIds\<close>,
  \<^verbatim>\<open>securityConfig.centralSecurityServices.macie.enable\<close> and \<^verbatim>\<open>.guardduty.enable\<close>,
  \<^verbatim>\<open>globalConfig.homeRegion\<close> and \<^verbatim>\<open>partition\<close>.\<close>

record AccountIdConfig =
  accountId :: string

record AccountsConfig =
  accountIds :: "AccountIdConfig list option"

record AcceleratorStackProps =
  organizationConfig_enable :: bool
  accountsConfig :: "AccountsConfig option"
  macie_enable :: bool
  guardduty_enable :: bool
  globalConfig_homeRegion :: string
  partition :: string

text \<open>\<^verbatim>\<open>props?.accountsConfig?.accountIds\<close>\<close>

definition props_accountIds :: "AcceleratorStackProps \<Rightarrow> AccountIdConfig list option" where
  "props_accountIds props = (case accountsConfig props of None \<Rightarrow> None | Some ac \<Rightarrow> accountIds ac)"

definition CROSS_ACCOUNT_ACCESS_ROLE_NAME :: string where
  "CROSS_ACCOUNT_ACCESS_ROLE_NAME = ''AWSAccelerator-CrossAccount-SsmParameter-Role''"

definition ACCELERATOR_KEY_ARN_PARAMETER_NAME :: string where
  "ACCELERATOR_KEY_ARN_PARAMETER_NAME = ''/accelerator/kms/key-arn''"

definition acceleratorRoleArnLike :: "StackEnv \<Rightarrow> conditions" where
  "acceleratorRoleArnLike env =
     [(''ArnLike'', [(''aws:PrincipalARN'',
        CondList [''arn:'' @ stack_partition env @ '':iam::*:role/AWSAccelerator-*''])])]"

text \<open>Lines 42-52.\<close>

definition acceleratorRoleStatement :: "StackEnv \<Rightarrow> AcceleratorStackProps \<Rightarrow> PolicyStatement" where
  "acceleratorRoleStatement env props =
     \<lparr> sid = Some ''Allow Accelerator Role to use the encryption key'',
       effect = None,
       principals = map_option (map (\<lambda>item. AccountPrincipal (accountId item))) (props_accountIds props),
       actions = [''kms:Encrypt'', ''kms:Decrypt'', ''kms:ReEncrypt*'', ''kms:GenerateDataKey*'', ''kms:DescribeKey''],
       resources = [Lit ''*''],
       conditions = Some (acceleratorRoleArnLike env) \<rparr>"

text \<open>Lines 58-63.\<close>

definition cloudwatchLogsStatement :: PolicyStatement where
  "cloudwatchLogsStatement =
     \<lparr> sid = Some ''Allow Cloudwatch logs to use the encryption key'',
       effect = None,
       principals = Some [ServicePrincipal ''logs.amazonaws.com.cn''],
       actions = [''kms:Encrypt*'', ''kms:Decrypt*'', ''kms:ReEncrypt*'', ''kms:GenerateDataKey*'', ''kms:Describe*''],
       resources = [Lit ''*''],
       conditions = None \<rparr>"

text \<open>Lines 67-78: the list of (name, principal) items.\<close>

definition allowedServicePrincipals :: "AcceleratorStackProps \<Rightarrow> (string \<times> string) list" where
  "allowedServicePrincipals props =
     [(''Sns'', ''sns.amazonaws.com''),
      (''Lambda'', ''lambda.amazonaws.com''),
      (''Cloudwatch'', ''cloudwatch.amazonaws.com'')]
     @ (if macie_enable props then [(''Macie'', ''macie.amazonaws.com'')] else [])
     @ (if guardduty_enable props then [(''Guardduty'', ''guardduty.amazonaws.com'')] else [])"

text \<open>Lines 82-87.\<close>

definition serviceStatement :: "string \<times> string \<Rightarrow> PolicyStatement" where
  "serviceStatement item =
     \<lparr> sid = Some (''Allow '' @ fst item @ '' service to use the encryption key''),
       effect = None,
       principals = Some [ServicePrincipal (snd item)],
       actions = [''kms:Encrypt'', ''kms:Decrypt'', ''kms:ReEncrypt*'', ''kms:GenerateDataKey*'', ''kms:DescribeKey''],
       resources = [Lit ''*''],
       conditions = None \<rparr>"

text \<open>Line 107: the principal the cross-account role trusts; \<open>organizationId\<close> and
  \<open>accountPrincipals\<close> are the local variables of the constructor.\<close>

definition crossAccountAssumedBy ::
  "AcceleratorStackProps \<Rightarrow> tok \<Rightarrow> principal list \<Rightarrow> error + principal" where
  "crossAccountAssumedBy props organizationId accountPrincipals =
     (if partition props = ''aws-cn'' \<and> props_accountIds props \<noteq> None
      then newCompositePrincipal accountPrincipals
      else Inr (OrganizationPrincipal organizationId))"

text \<open>Lines 105-138: the properties of the cross-account role, \<open>trusted\<close> being the value
  of line 107.\<close>

definition crossAccountRoleProps :: "StackEnv \<Rightarrow> principal \<Rightarrow> RoleProps" where
  "crossAccountRoleProps env trusted =
     \<lparr> roleName = CROSS_ACCOUNT_ACCESS_ROLE_NAME,
       assumedBy = trusted,
       roleDescription = None,
       inlinePolicies =
         [(''default'',
           [\<lparr> sid = None, effect = Some ALLOW, principals = None,
              actions = [''ssm:GetParameters'', ''ssm:GetParameter''],
              resources = [Lit (''arn:'' @ stack_partition env @ '':ssm:*:'' @ stack_account env
                                @ '':parameter/accelerator/kms/key-arn'')],
              conditions = Some (acceleratorRoleArnLike env) \<rparr>,
            \<lparr> sid = None, effect = Some ALLOW, principals = None,
              actions = [''ssm:DescribeParameters''],
              resources = [Lit ''*''],
              conditions = Some (acceleratorRoleArnLike env) \<rparr>])],
       managedPolicies = [] \<rparr>"

definition suppressionReason :: string where
  "suppressionReason = ''This policy is required to give access to ssm parameters in every region where accelerator deployed. Various accelerator roles need permission to describe SSM parameters.''"

text \<open>
  The constructor of \<^verbatim>\<open>KeyStack\<close> (lines 25-154): the outcome, and the constructs its
  body has declared into the stack, in order, when it returns or throws. The stack is
  the scope, so the paths have length one. The debug line of line 28 declares nothing.
  The properties of the role are evaluated before \<^verbatim>\<open>new Role\<close> runs, so a throw of
  line 107 leaves the role undeclared.
\<close>

definition KeyStack :: "StackEnv \<Rightarrow> AcceleratorStackProps \<Rightarrow> (error + unit) \<times> tree" where
  "KeyStack env props =
    (let t0 = [];
         \<comment> \<open>line 30\<close>
         (organizationId, t1) =
            (if organizationConfig_enable props
             then (Attr [''Organization''] ''id'', new [''Organization''] Organization t0)
             else (Lit '''', t0));
         \<comment> \<open>lines 32-37\<close>
         key = [''AcceleratorKey''];
         t2 = new key (Key \<lparr> keyAlias = ''alias/accelerator/kms/key'',
                             keyDescription = ''AWS Accelerator Kms Key'',
                             enableKeyRotation = True,
                             removalPolicy = Some RETAIN \<rparr> []) t1;
         \<comment> \<open>lines 39-54\<close>
         t3 = (if organizationConfig_enable props
               then addToResourcePolicy key (acceleratorRoleStatement env props) t2
               else t2);
         \<comment> \<open>lines 57-64\<close>
         t4 = addToResourcePolicy key cloudwatchLogsStatement t3;
         \<comment> \<open>lines 80-89\<close>
         t5 = fold (\<lambda>item. addToResourcePolicy key (serviceStatement item))
                   (allowedServicePrincipals props) t4;
         \<comment> \<open>lines 91-94\<close>
         t6 = new [''AcceleratorKmsArnParameter'']
                  (StringParameter ''/accelerator/kms/key-arn'' (Attr key ''keyArn'')) t5;
         \<comment> \<open>lines 98-102\<close>
         accountPrincipals =
            map (\<lambda>assumedByItem. AccountPrincipal (accountId assumedByItem))
                (case props_accountIds props of None \<Rightarrow> [] | Some ids \<Rightarrow> ids)
     in \<comment> \<open>lines 104-153\<close>
        if stack_region env = globalConfig_homeRegion props \<and> organizationConfig_enable props
        then (case crossAccountAssumedBy props organizationId accountPrincipals of
                Inl e \<Rightarrow> (Inl e, t6)
              | Inr trusted \<Rightarrow>
                  (Inr (),
                   addResourceSuppressionsByPath env
                     (stackName env @ ''/CrossAccountAcceleratorSsmParamAccessRole/Resource'')
                     [(''AwsSolutions-IAM5'', suppressionReason)]
                     (new [''CrossAccountAcceleratorSsmParamAccessRole'']
                          (Role (crossAccountRoleProps env trusted) []) t6)))
        else (Inr (), t6))"

subsection \<open>Reading the result\<close>

fun keyPolicy :: "construct option \<Rightarrow> PolicyStatement list" where
  "keyPolicy (Some (Key kp pol)) = pol"
| "keyPolicy c = []"

text \<open>The resource policy of the shared key when the constructor has returned or thrown.\<close>

definition acceleratorKeyPolicy :: "StackEnv \<Rightarrow> AcceleratorStackProps \<Rightarrow> PolicyStatement list" where
  "acceleratorKeyPolicy env props = keyPolicy (tryFindChild [''AcceleratorKey''] (snd (KeyStack env props)))"

definition statementPrincipals :: "PolicyStatement \<Rightarrow> principal list" where
  "statementPrincipals s = (case principals s of None \<Rightarrow> [] | Some ps \<Rightarrow> ps)"

text \<open>The effect of a statement: \<^verbatim>\<open>Allow\<close> when the property is omitted.\<close>

definition statementEffect :: "PolicyStatement \<Rightarrow> Effect" where
  "statementEffect s = (case effect s of None \<Rightarrow> ALLOW | Some e \<Rightarrow> e)"

fun isRole :: "construct \<Rightarrow> bool" where
  "isRole (Role rp sps) = True"
| "isRole c = False"

fun isServicePrincipal :: "principal \<Rightarrow> bool" where
  "isServicePrincipal (ServicePrincipal n) = True"
| "isServicePrincipal p = False"

section \<open>The session-logging settings provisioner: class SsmSessionManagerSettings\<close>

record SsmSessionManagerSettingsProps =
  s3BucketName :: "string option"
  s3KeyPrefix :: "string option"
  s3BucketKeyArn :: "string option"
  sendToS3 :: bool
  sendToCloudWatchLogs :: bool
  cloudWatchEncryptionEnabled :: bool
  kmsKey :: path
  logRetentionInDays :: int

text \<open>Lines 202-212: the statement the agent policy document starts with.\<close>

definition channelStatement :: PolicyStatement where
  "channelStatement =
     \<lparr> sid = None, effect = Some ALLOW, principals = None,
       actions = [''ssmmessages:CreateControlChannel'', ''ssmmessages:CreateDataChannel'',
                  ''ssmmessages:OpenControlChannel'', ''ssmmessages:OpenDataChannel'',
                  ''ssm:UpdateInstanceInformation''],
       resources = [Lit ''*''],
       conditions = None \<rparr>"

text \<open>Lines 225-230, and again lines 317-322.\<close>

definition iamUserPermissionsStatement :: PolicyStatement where
  "iamUserPermissionsStatement =
     \<lparr> sid = Some ''Enable IAM User Permissions'', effect = None,
       principals = Some [AccountRootPrincipal],
       actions = [''kms:*''],
       resources = [Lit ''*''],
       conditions = None \<rparr>"

text \<open>Lines 234-246, and again lines 326-338.\<close>

definition cloudWatchLogsAccessStatement :: "StackEnv \<Rightarrow> PolicyStatement" where
  "cloudWatchLogsAccessStatement env =
     \<lparr> sid = Some ''Allow Cloud Watch Logs access'', effect = None,
       principals = Some [ServicePrincipal (''logs.'' @ stack_region env @ ''.amazonaws.com.cn'')],
       actions = [''kms:Encrypt*'', ''kms:Decrypt*'', ''kms:ReEncrypt*'', ''kms:GenerateDataKey*'', ''kms:Describe*''],
       resources = [Lit ''*''],
       conditions = Some [(''ArnLike'', [(''kms:EncryptionContext:aws:logs:arn'',
          CondStr (''arn:'' @ stack_partition env @ '':logs:'' @ stack_region env @ '':''
                   @ stack_account env @ '':*''))])] \<rparr>"

text \<open>Lines 259-267.\<close>

definition describeLogGroupsStatement :: "StackEnv \<Rightarrow> PolicyStatement" where
  "describeLogGroupsStatement env =
     \<lparr> sid = None, effect = Some ALLOW, principals = None,
       actions = [''logs:DescribeLogGroups''],
       resources = [Lit (''arn:'' @ stack_partition env @ '':logs:'' @ stack_region env @ '':''
                         @ stack_account env @ '':log-group:*'')],
       conditions = None \<rparr>"

text \<open>Lines 268-276.\<close>

definition logStreamStatement :: "StackEnv \<Rightarrow> string \<Rightarrow> PolicyStatement" where
  "logStreamStatement env logGroupName =
     \<lparr> sid = None, effect = Some ALLOW, principals = None,
       actions = [''logs:CreateLogStream'', ''logs:PutLogEvents'', ''logs:DescribeLogStreams''],
       resources = [Lit (''arn:'' @ stack_partition env @ '':logs:'' @ stack_region env @ '':''
                         @ stack_account env @ '':log-group:'' @ logGroupName @ '':*'')],
       conditions = None \<rparr>"

text \<open>Lines 286-294.\<close>

definition putObjectStatement :: "StackEnv \<Rightarrow> SsmSessionManagerSettingsProps \<Rightarrow> PolicyStatement" where
  "putObjectStatement env props =
     \<lparr> sid = None, effect = Some ALLOW, principals = None,
       actions = [''s3:PutObject'', ''s3:PutObjectAcl''],
       resources = [Lit (''arn:'' @ stack_partition env @ '':s3:::'' @ str (s3BucketName props) @ ''/''
                         @ (if truthy (s3KeyPrefix props) then str (s3KeyPrefix props) @ ''/*'' else ''*''))],
       conditions = None \<rparr>"

text \<open>Lines 295-299.\<close>

definition encryptionConfigurationStatement ::
  "StackEnv \<Rightarrow> SsmSessionManagerSettingsProps \<Rightarrow> PolicyStatement" where
  "encryptionConfigurationStatement env props =
     \<lparr> sid = None, effect = Some ALLOW, principals = None,
       actions = [''s3:GetEncryptionConfiguration''],
       resources = [Lit (''arn:'' @ stack_partition env @ '':s3:::'' @ str (s3BucketName props))],
       conditions = None \<rparr>"

text \<open>Lines 300-304.\<close>

definition bucketKeyStatement :: "SsmSessionManagerSettingsProps \<Rightarrow> PolicyStatement" where
  "bucketKeyStatement props =
     \<lparr> sid = None, effect = Some ALLOW, principals = None,
       actions = [''kms:Decrypt'', ''kms:GenerateDataKey''],
       resources = [Lit (str (s3BucketKeyArn props))],
       conditions = None \<rparr>"

text \<open>Lines 343-347; the argument is the path of the session key.\<close>

definition sessionKeyDecryptStatement :: "path \<Rightarrow> PolicyStatement" where
  "sessionKeyDecryptStatement sessionManagerSessionCmk =
     \<lparr> sid = None, effect = Some ALLOW, principals = None,
       actions = [''kms:Decrypt''],
       resources = [Attr sessionManagerSessionCmk ''keyArn''],
       conditions = None \<rparr>"

text \<open>Lines 371-375.\<close>

definition userKmsStatement :: "path \<Rightarrow> PolicyStatement" where
  "userKmsStatement sessionManagerSessionCmk =
     \<lparr> sid = None, effect = Some ALLOW, principals = None,
       actions = [''kms:Decrypt'', ''kms:GenerateDataKey''],
       resources = [Attr sessionManagerSessionCmk ''keyArn''],
       conditions = None \<rparr>"

text \<open>
  \<^verbatim>\<open>cdk.CustomResourceProvider.getOrCreateProvider(scope, uniqueid, props)\<close> is a function
  of the library: the provider is a singleton of the stack, declared under the id
  \<^verbatim>\<open>uniqueid + 'CustomResourceProvider'\<close> unless the stack has a child of that id already.
  The result is the id of the provider's node with the tree.
\<close>

definition getOrCreateProvider ::
  "string \<Rightarrow> CustomResourceProviderProps \<Rightarrow> tree \<Rightarrow> string \<times> tree" where
  "getOrCreateProvider uniqueid pprops t =
     (let pid = uniqueid @ ''CustomResourceProvider''
      in case tryFindChild [pid] t of
           Some c \<Rightarrow> (pid, t)
         | None \<Rightarrow> (pid, new [pid] (CustomResourceProvider pprops) t))"

fun addDependencyTo :: "path \<Rightarrow> construct \<Rightarrow> construct" where
  "addDependencyTo d (CustomResource cp deps) = CustomResource cp (deps @ [d])"
| "addDependencyTo d c = c"

text \<open>\<^verbatim>\<open>resource.node.addDependency(dep)\<close>, the resource being the construct at the path.\<close>

definition addDependency :: "path \<Rightarrow> path \<Rightarrow> tree \<Rightarrow> tree" where
  "addDependency p d t = map (\<lambda>(q, c). if q = p then (q, addDependencyTo d c) else (q, c)) t"

text \<open>
  The constructor of \<^verbatim>\<open>SsmSessionManagerSettings\<close> (lines 197-429), with the stack as its
  scope: \<open>t0\<close> is the tree of the stack before the call. The result is the tree after the
  call together with the outcome: the field \<^verbatim>\<open>id\<close> of the new object, or the error
  thrown, by line 282 or by \<^verbatim>\<open>new LogGroup\<close> at line 420. A throw leaves in the tree what
  was declared before it. The children the library gives the provider are not part of
  the tree.
\<close>

definition SsmSessionManagerSettings ::
  "StackEnv \<Rightarrow> string \<Rightarrow> SsmSessionManagerSettingsProps \<Rightarrow> tree \<Rightarrow> (error + tok) \<times> tree" where
  "SsmSessionManagerSettings env ident props t0 =
    (let this = [ident];
         \<comment> \<open>line 198\<close>
         t1 = new this Construct t0;
         \<comment> \<open>lines 200-214\<close>
         sessionManagerEC2PolicyDocument = [channelStatement];
         \<comment> \<open>lines 216-278\<close>
         (sessionManagerLogGroupName, sessionManagerEC2PolicyDocument, t2) =
           (if sendToCloudWatchLogs props
            then
              (let sessionManagerLogsCmk = this @ [''SessionManagerLogsCmk''];
                   ta = new sessionManagerLogsCmk
                          (Key \<lparr> keyAlias = ''accelerator/session-manager-logging/cloud-watch-logs'',
                                 keyDescription = ''AWS Accelerator Cloud Watch Logs CMK for Session Manager Logs'',
                                 enableKeyRotation = True,
                                 removalPolicy = None \<rparr> []) t1;
                   tb = addToResourcePolicy sessionManagerLogsCmk iamUserPermissionsStatement ta;
                   tc = addToResourcePolicy sessionManagerLogsCmk (cloudWatchLogsAccessStatement env) tb;
                   logGroupName = ''aws-accelerator-session-manager-logs'';
                   sessionManagerLogGroup = this @ [''sessionManagerLogGroup''];
                   td = new sessionManagerLogGroup
                          (LogGroup \<lparr> lg_retention = TEN_YEARS,
                                      lg_logGroupName = Lit logGroupName,
                                      lg_encryptionKey = sessionManagerLogsCmk,
                                      lg_removalPolicy = None \<rparr>) tc
               in (Attr sessionManagerLogGroup ''logGroupName'',
                   sessionManagerEC2PolicyDocument
                     @ [describeLogGroupsStatement env, logStreamStatement env logGroupName],
                   td))
            else (Lit '''', sessionManagerEC2PolicyDocument, t1))
     in \<comment> \<open>lines 280-283\<close>
        if sendToS3 props \<and> (\<not> truthy (s3BucketKeyArn props) \<or> \<not> truthy (s3BucketName props))
        then (Inl (Error ''Bucket Key Arn and Bucket Name must be provided''), t2)
        else
         (let \<comment> \<open>lines 284-306\<close>
              sessionManagerEC2PolicyDocument =
                (if sendToS3 props
                 then sessionManagerEC2PolicyDocument
                        @ [putObjectStatement env props,
                           encryptionConfigurationStatement env props,
                           bucketKeyStatement props]
                 else sessionManagerEC2PolicyDocument);
              \<comment> \<open>lines 309-339\<close>
              sessionManagerSessionCmk = this @ [''SessionManagerSessionCmk''];
              t3 = new sessionManagerSessionCmk
                     (Key \<lparr> keyAlias = ''accelerator/session-manager-logging/session'',
                            keyDescription = ''AWS Accelerator Cloud Watch Logs CMK for Session Manager Logs'',
                            enableKeyRotation = True,
                            removalPolicy = None \<rparr> []) t2;
              t4 = addToResourcePolicy sessionManagerSessionCmk iamUserPermissionsStatement t3;
              t5 = addToResourcePolicy sessionManagerSessionCmk (cloudWatchLogsAccessStatement env) t4;
              \<comment> \<open>lines 342-348\<close>
              sessionManagerEC2PolicyDocument =
                sessionManagerEC2PolicyDocument @ [sessionKeyDecryptStatement sessionManagerSessionCmk];
              \<comment> \<open>lines 350-353\<close>
              sessionManagerEC2Policy = this @ [''SessionManagerEC2Policy''];
              t6 = new sessionManagerEC2Policy
                     (ManagedPolicy \<lparr> document = sessionManagerEC2PolicyDocument,
                                      managedPolicyName = ''SessionManagerLogging-'' @ stack_region env \<rparr>) t5;
              \<comment> \<open>lines 356-361\<close>
              sessionManagerEC2Role = this @ [''SessionManagerEC2Role''];
              t7 = new sessionManagerEC2Role
                     (Role \<lparr> roleName = ''SessionManagerEC2Role-'' @ stack_region env,
                             assumedBy = ServicePrincipal ''ec2.amazonaws.com.cn'',
                             roleDescription = Some ''IAM Role for an EC2 configured for Session Manager Logging'',
                             inlinePolicies = [],
                             managedPolicies = [sessionManagerEC2Policy] \<rparr> []) t6;
              \<comment> \<open>lines 364-367\<close>
              t8 = new (this @ [''SessionManagerEC2InstanceProfile''])
                     (CfnInstanceProfile
                        \<lparr> roles = [Attr sessionManagerEC2Role ''roleName''],
                          instanceProfileName = ''SessionManagerEc2Role-'' @ stack_region env \<rparr>) t7;
              \<comment> \<open>lines 369-383\<close>
              sessionManagerUserPolicyDocument = [userKmsStatement sessionManagerSessionCmk];
              t9 = new (this @ [''SessionManagerUserKMSPolicy''])
                     (ManagedPolicy
                        \<lparr> document = sessionManagerUserPolicyDocument,
                          managedPolicyName = ''SessionManagerUserKMSPolicy-'' @ stack_region env \<rparr>) t8;
              \<comment> \<open>lines 388-398\<close>
              (provider, t10) =
                 getOrCreateProvider ''Custom::SessionManagerLogging''
                   \<lparr> codeDirectory = dirname env @ ''/session-manager-settings/dist'',
                     runtime = ''NODEJS_14_X'',
                     policyStatements =
                       [\<lparr> provEffect = ''Allow'',
                          provAction = [''ssm:DescribeDocument'', ''ssm:CreateDocument'', ''ssm:UpdateDocument''],
                          provResource = ''*'' \<rparr>] \<rparr> t9;
              \<comment> \<open>lines 400-411\<close>
              resource = this @ [''Resource''];
              t11 = new resource
                      (CustomResource
                         \<lparr> resourceType = ''Custom::SsmSessionManagerSettings'',
                           serviceToken = Attr [provider] ''serviceToken'',
                           properties =
                             \<lparr> prop_s3BucketName = s3BucketName props,
                               prop_s3KeyPrefix = s3KeyPrefix props,
                               prop_s3EncryptionEnabled = sendToS3 props,
                               prop_cloudWatchLogGroupName = sessionManagerLogGroupName,
                               prop_cloudWatchEncryptionEnabled = cloudWatchEncryptionEnabled props,
                               prop_kmsKeyId = Attr sessionManagerSessionCmk ''keyId'' \<rparr> \<rparr> []) t10;
              \<comment> \<open>lines 417-425\<close>
              logGroup = [provider @ ''LogGroup''];
              created =
                (case tryFindChild logGroup t11 of
                   Some c \<Rightarrow> Inr t11
                 | None \<Rightarrow>
                     newLogGroup logGroup
                       \<lparr> lg_retention = Days (logRetentionInDays props),
                         lg_logGroupName = Concat (Lit ''/aws/lambda/'') (Attr [provider, ''Handler''] ''Ref''),
                         lg_encryptionKey = kmsKey props,
                         lg_removalPolicy = Some DESTROY \<rparr> t11)
          in case created of
               Inl e \<Rightarrow> (Inl e, t11)
             | Inr t12 \<Rightarrow>
                 \<comment> \<open>lines 426-428\<close>
                 (Inr (Attr resource ''Ref''), addDependency resource logGroup t12)))"

fun roleProps :: "construct option \<Rightarrow> RoleProps option" where
  "roleProps (Some (Role rp sps)) = Some rp"
| "roleProps c = None"

text \<open>The cross-account role when the constructor of \<^verbatim>\<open>KeyStack\<close> has returned or
  thrown, if it was declared.\<close>

definition crossAccountRole :: "StackEnv \<Rightarrow> AcceleratorStackProps \<Rightarrow> RoleProps option" where
  "crossAccountRole env props =
     roleProps (tryFindChild [''CrossAccountAcceleratorSsmParamAccessRole''] (snd (KeyStack env props)))"

text \<open>The tree of \<^verbatim>\<open>KeyStack\<close> before line 104, in closed form.\<close>

definition keyNodes :: "StackEnv \<Rightarrow> AcceleratorStackProps \<Rightarrow> tree" where
  "keyNodes env props =
     (if organizationConfig_enable props then [([''Organization''], Organization)] else [])
     @ [([''AcceleratorKey''],
         Key \<lparr> keyAlias = ''alias/accelerator/kms/key'', keyDescription = ''AWS Accelerator Kms Key'',
               enableKeyRotation = True, removalPolicy = Some RETAIN \<rparr>
             ((if organizationConfig_enable props then [acceleratorRoleStatement env props] else [])
              @ [cloudwatchLogsStatement]
              @ map serviceStatement (allowedServicePrincipals props))),
        ([''AcceleratorKmsArnParameter''],
         StringParameter ''/accelerator/kms/key-arn'' (Attr [''AcceleratorKey''] ''keyArn''))]"

text \<open>The suppression of lines 142-152 reaches the cross-account role: the path handed
  over is that of the role, or of the resource under it.\<close>

definition suppressionMatches :: "StackEnv \<Rightarrow> bool" where
  "suppressionMatches env =
     (constructPath env [''CrossAccountAcceleratorSsmParamAccessRole'']
        = stackName env @ ''/CrossAccountAcceleratorSsmParamAccessRole/Resource''
      \<or> constructPath env [''CrossAccountAcceleratorSsmParamAccessRole''] @ ''/Resource''
        = stackName env @ ''/CrossAccountAcceleratorSsmParamAccessRole/Resource'')"

text \<open>
  An id is unused in a tree when no path of the tree starts with it. The library refuses
  a second construct of the same id in one scope, so a constructor only ever runs on a
  tree in which its id is unused.
\<close>

definition unused :: "string \<Rightarrow> tree \<Rightarrow> bool" where
  "unused ident t = (\<forall>(p, c) \<in> set t. take 1 p \<noteq> [ident])"

text \<open>What a call has appended to the tree \<open>t0\<close> it started from.\<close>

definition declared :: "tree \<Rightarrow> tree \<Rightarrow> tree" where
  "declared t0 t = drop (length t0) t"

fun isResource :: "construct \<Rightarrow> bool" where
  "isResource Construct = False"
| "isResource c = True"

definition resourcePaths :: "tree \<Rightarrow> path list" where
  "resourcePaths t = map fst (filter (\<lambda>(p, c). isResource c) t)"

definition declarationsAt :: "path \<Rightarrow> tree \<Rightarrow> tree" where
  "declarationsAt p t = filter (\<lambda>(q, c). q = p) t"

text \<open>The condition of line 281 under that of line 280.\<close>

definition invalidS3 :: "SsmSessionManagerSettingsProps \<Rightarrow> bool" where
  "invalidS3 props =
     (sendToS3 props \<and> (\<not> truthy (s3BucketKeyArn props) \<or> \<not> truthy (s3BucketName props)))"

text \<open>The ids the library derives for the provider, and line 419 for the log group of
  its handler.\<close>

definition providerId :: string where
  "providerId = ''Custom::SessionManagerLoggingCustomResourceProvider''"

definition handlerLogGroupId :: string where
  "handlerLogGroupId = ''Custom::SessionManagerLoggingCustomResourceProviderLogGroup''"

fun managedPolicyDocument :: "construct option \<Rightarrow> PolicyStatement list" where
  "managedPolicyDocument (Some (ManagedPolicy mp)) = document mp"
| "managedPolicyDocument c = []"

text \<open>The document of the agent policy (\<^verbatim>\<open>SessionManagerEC2Policy\<close>) of the instance
  \<open>ident\<close> in a tree.\<close>

definition agentPolicyDocument :: "string \<Rightarrow> tree \<Rightarrow> PolicyStatement list" where
  "agentPolicyDocument ident t = managedPolicyDocument (tryFindChild [ident, ''SessionManagerEC2Policy''] t)"

fun isSessionKey :: "construct \<Rightarrow> bool" where
  "isSessionKey (Key kp pol) = (keyAlias kp = ''accelerator/session-manager-logging/session'')"
| "isSessionKey c = False"

definition sessionKeys :: "tree \<Rightarrow> tree" where
  "sessionKeys t = filter (\<lambda>(p, c). isSessionKey c) t"

fun customResourceProps :: "construct option \<Rightarrow> CustomResourceProps option" where
  "customResourceProps (Some (CustomResource cp deps)) = Some cp"
| "customResourceProps c = None"

fun customResourceDependencies :: "construct option \<Rightarrow> path list" where
  "customResourceDependencies (Some (CustomResource cp deps)) = deps"
| "customResourceDependencies c = []"

fun logGroupProps :: "construct option \<Rightarrow> LogGroupProps option" where
  "logGroupProps (Some (LogGroup lp)) = Some lp"
| "logGroupProps c = None"

subsection \<open>Destinations and their statement blocks\<close>

datatype destination = CloudWatchLogs | S3

definition enabledDestinations :: "SsmSessionManagerSettingsProps \<Rightarrow> destination list" where
  "enabledDestinations props =
     (if sendToCloudWatchLogs props then [CloudWatchLogs] else [])
     @ (if sendToS3 props then [S3] else [])"

fun destinationBlock ::
  "StackEnv \<Rightarrow> SsmSessionManagerSettingsProps \<Rightarrow> destination \<Rightarrow> PolicyStatement list" where
  "destinationBlock env props CloudWatchLogs =
     [describeLogGroupsStatement env, logStreamStatement env ''aws-accelerator-session-manager-logs'']"
| "destinationBlock env props S3 =
     [putObjectStatement env props, encryptionConfigurationStatement env props, bucketKeyStatement props]"

subsection \<open>Log-group scoping of a resource\<close>

text \<open>The ARN of the log group of a name in the stack's partition, region and account;
  a resource is scoped to the log group when it is a literal that starts with this ARN.\<close>

definition logGroupArn :: "StackEnv \<Rightarrow> string \<Rightarrow> string" where
  "logGroupArn env name =
     ''arn:'' @ stack_partition env @ '':logs:'' @ stack_region env @ '':'' @ stack_account env
     @ '':log-group:'' @ name"

fun scopedToLogGroup :: "StackEnv \<Rightarrow> string \<Rightarrow> tok \<Rightarrow> bool" where
  "scopedToLogGroup env name (Lit s) = prefix (logGroupArn env name) s"
| "scopedToLogGroup env name r = False"

definition isLogsStatement :: "PolicyStatement \<Rightarrow> bool" where
  "isLogsStatement s = list_ex (prefix ''logs:'') (actions s)"

definition logsStatements :: "PolicyStatement list \<Rightarrow> PolicyStatement list" where
  "logsStatements doc = filter isLogsStatement doc"

definition unscopedLogsStatements :: "StackEnv \<Rightarrow> string \<Rightarrow> PolicyStatement list \<Rightarrow> PolicyStatement list" where
  "unscopedLogsStatements env name doc =
     filter (\<lambda>s. \<not> list_all (scopedToLogGroup env name) (resources s)) (logsStatements doc)"

definition objectWriteStatements :: "PolicyStatement list \<Rightarrow> PolicyStatement list" where
  "objectWriteStatements doc = filter (\<lambda>s. ''s3:PutObject'' \<in> set (actions s)) doc"

subsection \<open>The trees the two paths of the constructor leave\<close>

text \<open>
  The declarations of \<^verbatim>\<open>SsmSessionManagerSettings\<close> in closed form, block by block;
  the lemmas \<open>SsmSessionManagerSettings_throws\<close> and \<open>SsmSessionManagerSettings_returns\<close>
  prove that the constructor appends exactly these.
\<close>

text \<open>Lines 218-254: the key and the log group of the CloudWatch destination.\<close>

definition cloudWatchNodes :: "StackEnv \<Rightarrow> string \<Rightarrow> tree" where
  "cloudWatchNodes env ident =
     [([ident, ''SessionManagerLogsCmk''],
       Key \<lparr> keyAlias = ''accelerator/session-manager-logging/cloud-watch-logs'',
             keyDescription = ''AWS Accelerator Cloud Watch Logs CMK for Session Manager Logs'',
             enableKeyRotation = True, removalPolicy = None \<rparr>
           [iamUserPermissionsStatement, cloudWatchLogsAccessStatement env]),
      ([ident, ''sessionManagerLogGroup''],
       LogGroup \<lparr> lg_retention = TEN_YEARS,
                  lg_logGroupName = Lit ''aws-accelerator-session-manager-logs'',
                  lg_encryptionKey = [ident, ''SessionManagerLogsCmk''],
                  lg_removalPolicy = None \<rparr>)]"

text \<open>The agent policy document when the constructor returns (lines 200-214, 258-277,
  285-305 and 342-348).\<close>

definition agentStatements :: "StackEnv \<Rightarrow> string \<Rightarrow> SsmSessionManagerSettingsProps \<Rightarrow> PolicyStatement list" where
  "agentStatements env ident props =
     [channelStatement]
     @ (if sendToCloudWatchLogs props
        then [describeLogGroupsStatement env, logStreamStatement env ''aws-accelerator-session-manager-logs'']
        else [])
     @ (if sendToS3 props
        then [putObjectStatement env props, encryptionConfigurationStatement env props, bucketKeyStatement props]
        else [])
     @ [sessionKeyDecryptStatement [ident, ''SessionManagerSessionCmk'']]"

text \<open>Lines 309-383: the session key, the agent policy, the role, the instance profile
  and the user policy.\<close>

definition sessionNodes :: "StackEnv \<Rightarrow> string \<Rightarrow> SsmSessionManagerSettingsProps \<Rightarrow> tree" where
  "sessionNodes env ident props =
     [([ident, ''SessionManagerSessionCmk''],
       Key \<lparr> keyAlias = ''accelerator/session-manager-logging/session'',
             keyDescription = ''AWS Accelerator Cloud Watch Logs CMK for Session Manager Logs'',
             enableKeyRotation = True, removalPolicy = None \<rparr>
           [iamUserPermissionsStatement, cloudWatchLogsAccessStatement env]),
      ([ident, ''SessionManagerEC2Policy''],
       ManagedPolicy \<lparr> document = agentStatements env ident props,
                       managedPolicyName = ''SessionManagerLogging-'' @ stack_region env \<rparr>),
      ([ident, ''SessionManagerEC2Role''],
       Role \<lparr> roleName = ''SessionManagerEC2Role-'' @ stack_region env,
              assumedBy = ServicePrincipal ''ec2.amazonaws.com.cn'',
              roleDescription = Some ''IAM Role for an EC2 configured for Session Manager Logging'',
              inlinePolicies = [],
              managedPolicies = [[ident, ''SessionManagerEC2Policy'']] \<rparr> []),
      ([ident, ''SessionManagerEC2InstanceProfile''],
       CfnInstanceProfile \<lparr> roles = [Attr [ident, ''SessionManagerEC2Role''] ''roleName''],
                            instanceProfileName = ''SessionManagerEc2Role-'' @ stack_region env \<rparr>),
      ([ident, ''SessionManagerUserKMSPolicy''],
       ManagedPolicy \<lparr> document = [userKmsStatement [ident, ''SessionManagerSessionCmk'']],
                       managedPolicyName = ''SessionManagerUserKMSPolicy-'' @ stack_region env \<rparr>)]"

text \<open>Lines 388-398.\<close>

definition providerNode :: "StackEnv \<Rightarrow> path \<times> construct" where
  "providerNode env =
     ([providerId],
      CustomResourceProvider
        \<lparr> codeDirectory = dirname env @ ''/session-manager-settings/dist'',
          runtime = ''NODEJS_14_X'',
          policyStatements =
            [\<lparr> provEffect = ''Allow'',
               provAction = [''ssm:DescribeDocument'', ''ssm:CreateDocument'', ''ssm:UpdateDocument''],
               provResource = ''*'' \<rparr>] \<rparr>)"

text \<open>Lines 400-411.\<close>

definition settingsResource :: "string \<Rightarrow> SsmSessionManagerSettingsProps \<Rightarrow> CustomResourceProps" where
  "settingsResource ident props =
        \<lparr> resourceType = ''Custom::SsmSessionManagerSettings'',
          serviceToken = Attr [providerId] ''serviceToken'',
          properties =
            \<lparr> prop_s3BucketName = s3BucketName props,
              prop_s3KeyPrefix = s3KeyPrefix props,
              prop_s3EncryptionEnabled = sendToS3 props,
              prop_cloudWatchLogGroupName =
                (if sendToCloudWatchLogs props
                 then Attr [ident, ''sessionManagerLogGroup''] ''logGroupName'' else Lit ''''),
              prop_cloudWatchEncryptionEnabled = cloudWatchEncryptionEnabled props,
              prop_kmsKeyId = Attr [ident, ''SessionManagerSessionCmk''] ''keyId'' \<rparr> \<rparr>"

text \<open>The custom resource with the dependency of line 426.\<close>

definition settingsNode :: "string \<Rightarrow> SsmSessionManagerSettingsProps \<Rightarrow> path \<times> construct" where
  "settingsNode ident props =
     ([ident, ''Resource''], CustomResource (settingsResource ident props) [[handlerLogGroupId]])"

text \<open>The handler's log group has to be declared by this call: the stack has no child of
  its id yet.\<close>

definition declaresHandlerLogGroup :: "string \<Rightarrow> tree \<Rightarrow> bool" where
  "declaresHandlerLogGroup ident t0 =
     (tryFindChild [handlerLogGroupId] t0 = None \<and> ident \<noteq> handlerLogGroupId)"

text \<open>Lines 420-425.\<close>

definition handlerLogGroupNode :: "SsmSessionManagerSettingsProps \<Rightarrow> path \<times> construct" where
  "handlerLogGroupNode props =
     ([handlerLogGroupId],
      LogGroup \<lparr> lg_retention = Days (logRetentionInDays props),
                 lg_logGroupName = Concat (Lit ''/aws/lambda/'') (Attr [providerId, ''Handler''] ''Ref''),
                 lg_encryptionKey = kmsKey props,
                 lg_removalPolicy = Some DESTROY \<rparr>)"


subsection \<open>Concrete configurations\<close>

definition exampleEnv :: StackEnv where
  "exampleEnv = \<lparr> stack_partition = ''aws-cn'', stack_region = ''cn-north-1'',
                   stack_account = ''111111111111'', stackName = ''AWSAccelerator-KeyStack'',
                   stackPath = ''AWSAccelerator-KeyStack'', dirname = ''/lib'' \<rparr>"

definition organizationProps :: AcceleratorStackProps where
  "organizationProps =
     \<lparr> organizationConfig_enable = True,
       accountsConfig = Some \<lparr> accountIds = Some [\<lparr> accountId = ''111111111111'' \<rparr>,
                                                  \<lparr> accountId = ''222222222222'' \<rparr>] \<rparr>,
       macie_enable = True,
       guardduty_enable = False,
       globalConfig_homeRegion = ''cn-north-1'',
       partition = ''aws-cn'' \<rparr>"

definition standaloneProps :: AcceleratorStackProps where
  "standaloneProps =
     \<lparr> organizationConfig_enable = False,
       accountsConfig = Some \<lparr> accountIds = Some [\<lparr> accountId = ''111111111111'' \<rparr>] \<rparr>,
       macie_enable = False,
       guardduty_enable = True,
       globalConfig_homeRegion = ''cn-north-1'',
       partition = ''aws-cn'' \<rparr>"

definition bothDestinations :: SsmSessionManagerSettingsProps where
  "bothDestinations =
     \<lparr> s3BucketName = Some ''session-logs'', s3KeyPrefix = Some ''ssm'',
       s3BucketKeyArn = Some ''arn:aws-cn:kms:cn-north-1:111111111111:key/k1'',
       sendToS3 = True, sendToCloudWatchLogs = True, cloudWatchEncryptionEnabled = True,
       kmsKey = [''AcceleratorKey''], logRetentionInDays = 365 \<rparr>"

definition noDestination :: SsmSessionManagerSettingsProps where
  "noDestination =
     \<lparr> s3BucketName = None, s3KeyPrefix = None, s3BucketKeyArn = None,
       sendToS3 = False, sendToCloudWatchLogs = False, cloudWatchEncryptionEnabled = False,
       kmsKey = [''AcceleratorKey''], logRetentionInDays = 30 \<rparr>"

definition missingBucket :: SsmSessionManagerSettingsProps where
  "missingBucket =
     \<lparr> s3BucketName = None, s3KeyPrefix = None,
       s3BucketKeyArn = Some ''arn:aws-cn:kms:cn-north-1:111111111111:key/k1'',
       sendToS3 = True, sendToCloudWatchLogs = True, cloudWatchEncryptionEnabled = True,
       kmsKey = [''AcceleratorKey''], logRetentionInDays = 365 \<rparr>"

definition emptyBucket :: SsmSessionManagerSettingsProps where
  "emptyBucket =
     \<lparr> s3BucketName = Some '''', s3KeyPrefix = None,
       s3BucketKeyArn = Some ''arn:aws-cn:kms:cn-north-1:111111111111:key/k1'',
       sendToS3 = True, sendToCloudWatchLogs = False, cloudWatchEncryptionEnabled = False,
       kmsKey = [''AcceleratorKey''], logRetentionInDays = 365 \<rparr>"


definition zeroRetention :: SsmSessionManagerSettingsProps where
  "zeroRetention =
     \<lparr> s3BucketName = Some ''session-logs'', s3KeyPrefix = None,
       s3BucketKeyArn = Some ''arn:aws-cn:kms:cn-north-1:111111111111:key/k1'',
       sendToS3 = True, sendToCloudWatchLogs = False, cloudWatchEncryptionEnabled = False,
       kmsKey = [''AcceleratorKey''], logRetentionInDays = 0 \<rparr>"

section \<open>Properties of the encryption-key provisioner\<close>

lemma addToResourcePolicy_simps:
  "addToResourcePolicy p s [] = []"
  "addToResourcePolicy p s ((q, c) # t) =
     (if q = p then (q, addStatement s c) else (q, c)) # addToResourcePolicy p s t"
  "addToResourcePolicy p s (t @ u) = addToResourcePolicy p s t @ addToResourcePolicy p s u"
  by (simp_all add: addToResourcePolicy_def)

lemma fold_addToResourcePolicy_key:
  "fold (\<lambda>item. addToResourcePolicy p (f item)) xs (pre @ [(p, Key kp pol)]) =
     fold (\<lambda>item. addToResourcePolicy p (f item)) xs pre @ [(p, Key kp (pol @ map f xs))]"
  by (induction xs arbitrary: pre pol) (simp_all add: addToResourcePolicy_simps)

lemma fold_addToResourcePolicy_other:
  "p \<notin> fst ` set pre \<Longrightarrow> fold (\<lambda>item. addToResourcePolicy p (f item)) xs pre = pre"
proof (induction xs)
  case Nil
  then show ?case by simp
next
  case (Cons x xs)
  have "addToResourcePolicy p (f x) pre = pre"
    using Cons.prems by (induction pre) (auto simp: addToResourcePolicy_simps)
  with Cons show ?case by simp
qed

lemma addResourceSuppressionsByPath_simps:
  "addResourceSuppressionsByPath env p xs [] = []"
  "addResourceSuppressionsByPath env p xs ((q, c) # t) =
     (if constructPath env q = p \<or> constructPath env q @ ''/Resource'' = p
      then (q, fold addSuppression xs c) else (q, c)) # addResourceSuppressionsByPath env p xs t"
  "addResourceSuppressionsByPath env p xs (t @ u) =
     addResourceSuppressionsByPath env p xs t @ addResourceSuppressionsByPath env p xs u"
  by (simp_all add: addResourceSuppressionsByPath_def)

lemma fold_addSuppression_other:
  "\<not> isRole c \<Longrightarrow> fold addSuppression xs c = c"
  by (induction xs) (cases c; simp)+

lemma addResourceSuppressionsByPath_keyNodes:
  "addResourceSuppressionsByPath env p xs (keyNodes env props) = keyNodes env props"
  by (simp add: keyNodes_def addResourceSuppressionsByPath_simps fold_addSuppression_other)

text \<open>The outcome and the whole tree the constructor leaves.\<close>

lemma KeyStack_eq:
  "KeyStack env props =
     (if stack_region env = globalConfig_homeRegion props \<and> organizationConfig_enable props
      then (case crossAccountAssumedBy props (Attr [''Organization''] ''id'')
                   (map (\<lambda>i. AccountPrincipal (accountId i))
                        (case props_accountIds props of None \<Rightarrow> [] | Some ids \<Rightarrow> ids)) of
              Inl e \<Rightarrow> (Inl e, keyNodes env props)
            | Inr trusted \<Rightarrow>
                (Inr (),
                 keyNodes env props
                 @ [([''CrossAccountAcceleratorSsmParamAccessRole''],
                     Role (crossAccountRoleProps env trusted)
                          (if suppressionMatches env then [(''AwsSolutions-IAM5'', suppressionReason)]
                           else []))]))
      else (Inr (), keyNodes env props))"
proof -
  have t6: "new [''AcceleratorKmsArnParameter'']
               (StringParameter ''/accelerator/kms/key-arn'' (Attr [''AcceleratorKey''] ''keyArn''))
             (fold (\<lambda>item. addToResourcePolicy [''AcceleratorKey''] (serviceStatement item))
                (allowedServicePrincipals props)
                (addToResourcePolicy [''AcceleratorKey''] cloudwatchLogsStatement
                  (if organizationConfig_enable props
                   then addToResourcePolicy [''AcceleratorKey''] (acceleratorRoleStatement env props)
                          (new [''AcceleratorKey'']
                             (Key \<lparr> keyAlias = ''alias/accelerator/kms/key'',
                                    keyDescription = ''AWS Accelerator Kms Key'',
                                    enableKeyRotation = True, removalPolicy = Some RETAIN \<rparr> [])
                             (new [''Organization''] Organization []))
                   else new [''AcceleratorKey'']
                          (Key \<lparr> keyAlias = ''alias/accelerator/kms/key'',
                                 keyDescription = ''AWS Accelerator Kms Key'',
                                 enableKeyRotation = True, removalPolicy = Some RETAIN \<rparr> []) [])))
            = keyNodes env props"
    unfolding new_def keyNodes_def
    by (cases "organizationConfig_enable props")
       (simp_all add: addToResourcePolicy_simps fold_addToResourcePolicy_key[where pre="[]", simplified]
          fold_addToResourcePolicy_key[where pre="[x]" for x, simplified] fold_addToResourcePolicy_other)
  show ?thesis
  proof (cases "organizationConfig_enable props")
    case True
    then show ?thesis
      unfolding KeyStack_def Let_def
      using t6
      by (simp add: new_def addResourceSuppressionsByPath_simps addResourceSuppressionsByPath_keyNodes
            suppressionMatches_def split: sum.splits)
  next
    case False
    then show ?thesis
      unfolding KeyStack_def Let_def
      using t6 by simp
  qed
qed

lemma acceleratorKeyPolicy_eq:
  "acceleratorKeyPolicy env props =
     (if organizationConfig_enable props then [acceleratorRoleStatement env props] else [])
     @ [cloudwatchLogsStatement]
     @ map serviceStatement (allowedServicePrincipals props)"
proof -
  have "tryFindChild [''AcceleratorKey''] (keyNodes env props @ rest) =
          Some (Key \<lparr> keyAlias = ''alias/accelerator/kms/key'', keyDescription = ''AWS Accelerator Kms Key'',
                      enableKeyRotation = True, removalPolicy = Some RETAIN \<rparr>
             ((if organizationConfig_enable props then [acceleratorRoleStatement env props] else [])
              @ [cloudwatchLogsStatement]
              @ map serviceStatement (allowedServicePrincipals props)))" for rest
    by (simp add: keyNodes_def tryFindChild_def map_add_def)
  from this[of "[]"] this
  show ?thesis
    unfolding acceleratorKeyPolicy_def KeyStack_eq
    by (simp split: sum.splits)
qed

lemma crossAccountAssumedBy_eq:
  "crossAccountAssumedBy props organizationId
     (map (\<lambda>i. AccountPrincipal (accountId i))
          (case props_accountIds props of None \<Rightarrow> [] | Some ids \<Rightarrow> ids)) =
     (case props_accountIds props of
        None \<Rightarrow> Inr (OrganizationPrincipal organizationId)
      | Some ids \<Rightarrow>
          if partition props = ''aws-cn''
          then (if ids = [] then Inl CompositePrincipalEmpty
                else Inr (CompositePrincipal (map (\<lambda>i. AccountPrincipal (accountId i)) ids)))
          else Inr (OrganizationPrincipal organizationId))"
  by (simp add: crossAccountAssumedBy_def newCompositePrincipal_def split: option.splits)

lemma crossAccountRole_eq:
  "crossAccountRole env props =
     (if stack_region env = globalConfig_homeRegion props \<and> organizationConfig_enable props
      then (case props_accountIds props of
              None \<Rightarrow> Some (crossAccountRoleProps env (OrganizationPrincipal (Attr [''Organization''] ''id'')))
            | Some ids \<Rightarrow>
                if partition props = ''aws-cn''
                then (if ids = [] then None
                      else Some (crossAccountRoleProps env
                                   (CompositePrincipal (map (\<lambda>i. AccountPrincipal (accountId i)) ids))))
                else Some (crossAccountRoleProps env (OrganizationPrincipal (Attr [''Organization''] ''id''))))
      else None)"
proof -
  have 1: "tryFindChild [''CrossAccountAcceleratorSsmParamAccessRole''] (keyNodes env props) = None"
    by (simp add: keyNodes_def tryFindChild_def)
  have 2: "tryFindChild [''CrossAccountAcceleratorSsmParamAccessRole'']
             (keyNodes env props @ [([''CrossAccountAcceleratorSsmParamAccessRole''], c)]) = Some c" for c
    by (simp add: keyNodes_def tryFindChild_def map_add_def)
  show ?thesis
    unfolding crossAccountRole_def KeyStack_eq crossAccountAssumedBy_eq
    by (simp add: 1 2 split: option.splits)
qed

lemma acceleratorRoleStatement_principals:
  "pr \<in> set (statementPrincipals (acceleratorRoleStatement env props)) \<Longrightarrow> \<exists>a. pr = AccountPrincipal a"
  by (cases "props_accountIds props") (auto simp: statementPrincipals_def acceleratorRoleStatement_def)

lemma serviceStatement_principals:
  "statementPrincipals (serviceStatement item) = [ServicePrincipal (snd item)]"
  by (simp add: statementPrincipals_def serviceStatement_def)

lemma cloudwatchLogsStatement_principals:
  "statementPrincipals cloudwatchLogsStatement = [ServicePrincipal ''logs.amazonaws.com.cn'']"
  by (simp add: statementPrincipals_def cloudwatchLogsStatement_def)

lemma acceleratorKeyPolicy_set:
  "set (acceleratorKeyPolicy env props) =
     (if organizationConfig_enable props then {acceleratorRoleStatement env props} else {})
     \<union> {cloudwatchLogsStatement}
     \<union> serviceStatement ` set (allowedServicePrincipals props)"
  by (simp add: acceleratorKeyPolicy_eq)

lemma serviceStatement_in_policy:
  "(serviceStatement item \<in> set (acceleratorKeyPolicy env props))
     = (item \<in> set (allowedServicePrincipals props))"
proof -
  have 1: "serviceStatement item \<noteq> acceleratorRoleStatement env props"
    by (simp add: serviceStatement_def acceleratorRoleStatement_def)
  have 2: "serviceStatement item \<noteq> cloudwatchLogsStatement"
    by (simp add: serviceStatement_def cloudwatchLogsStatement_def)
  have 3: "serviceStatement item = serviceStatement item' \<Longrightarrow> item = item'" for item'
    by (cases item; cases item') (simp add: serviceStatement_def)
  show ?thesis
    unfolding acceleratorKeyPolicy_set using 1 2 3 by auto
qed

lemma servicePrincipal_in_policy:
  "(\<exists>s \<in> set (acceleratorKeyPolicy env props). ServicePrincipal n \<in> set (statementPrincipals s))
     = (n = ''logs.amazonaws.com.cn'' \<or> n \<in> snd ` set (allowedServicePrincipals props))"
proof -
  have 1: "ServicePrincipal n \<notin> set (statementPrincipals (acceleratorRoleStatement env props))"
    using acceleratorRoleStatement_principals[of "ServicePrincipal n" env props] by auto
  show ?thesis
    unfolding acceleratorKeyPolicy_set using 1
    by (auto simp: serviceStatement_principals cloudwatchLogsStatement_principals image_iff)
qed

lemma allowedServicePrincipals_set:
  "set (allowedServicePrincipals props) =
     {(''Sns'', ''sns.amazonaws.com''), (''Lambda'', ''lambda.amazonaws.com''),
      (''Cloudwatch'', ''cloudwatch.amazonaws.com'')}
     \<union> (if macie_enable props then {(''Macie'', ''macie.amazonaws.com'')} else {})
     \<union> (if guardduty_enable props then {(''Guardduty'', ''guardduty.amazonaws.com'')} else {})"
  by (simp add: allowedServicePrincipals_def)



text \<open>
  C3. With organization mode disabled the constructor declares no role at all, so no
  cross-account role, and the resource policy of the shared key holds no statement for
  the accelerator roles: every principal of every statement is a service principal,
  none an account, organization or composite principal, whatever the region, the
  partition and the list of account ids are.
\<close>

theorem no_organization_grants_when_disabled:
  assumes "\<not> organizationConfig_enable props"
  shows "(\<forall>(p, c) \<in> set (snd (KeyStack env props)). \<not> isRole c)
       \<and> crossAccountRole env props = None
       \<and> acceleratorRoleStatement env props \<notin> set (acceleratorKeyPolicy env props)
       \<and> (\<forall>s \<in> set (acceleratorKeyPolicy env props).
            sid s \<noteq> Some ''Allow Accelerator Role to use the encryption key''
            \<and> (\<forall>pr \<in> set (statementPrincipals s). isServicePrincipal pr))"
proof -
  have pol: "acceleratorKeyPolicy env props =
      cloudwatchLogsStatement # map serviceStatement (allowedServicePrincipals props)"
    using assms by (simp add: acceleratorKeyPolicy_eq)
  have 1: "\<forall>(p, c) \<in> set (snd (KeyStack env props)). \<not> isRole c"
    using assms by (simp add: KeyStack_eq keyNodes_def)
  have 2: "crossAccountRole env props = None"
    using assms by (simp add: crossAccountRole_eq)
  have 3: "\<forall>s \<in> set (acceleratorKeyPolicy env props).
            sid s \<noteq> Some ''Allow Accelerator Role to use the encryption key''
            \<and> (\<forall>pr \<in> set (statementPrincipals s). isServicePrincipal pr)"
    unfolding pol
    by (auto simp: serviceStatement_principals cloudwatchLogsStatement_principals)
       (simp_all add: serviceStatement_def cloudwatchLogsStatement_def)
  have 4: "acceleratorRoleStatement env props \<notin> set (acceleratorKeyPolicy env props)"
    using 3 by (auto simp: acceleratorRoleStatement_def)
  show ?thesis using 1 2 3 4 by blast
qed

theorem no_organization_grants_when_disabled_witness:
  "\<not> organizationConfig_enable standaloneProps
   \<and> stack_region exampleEnv = globalConfig_homeRegion standaloneProps
   \<and> partition standaloneProps = ''aws-cn''
   \<and> props_accountIds standaloneProps \<noteq> None
   \<and> crossAccountRole exampleEnv standaloneProps = None
   \<and> map fst (snd (KeyStack exampleEnv standaloneProps))
        = [[''AcceleratorKey''], [''AcceleratorKmsArnParameter'']]
   \<and> map statementPrincipals (acceleratorKeyPolicy exampleEnv standaloneProps) =
       [[ServicePrincipal ''logs.amazonaws.com.cn''], [ServicePrincipal ''sns.amazonaws.com''],
        [ServicePrincipal ''lambda.amazonaws.com''], [ServicePrincipal ''cloudwatch.amazonaws.com''],
        [ServicePrincipal ''guardduty.amazonaws.com'']]"
  using no_organization_grants_when_disabled [of standaloneProps exampleEnv]
  by (simp add: KeyStack_eq keyNodes_def acceleratorKeyPolicy_eq allowedServicePrincipals_def
        serviceStatement_principals cloudwatchLogsStatement_principals
        exampleEnv_def standaloneProps_def props_accountIds_def)

text \<open>
  C8. Whether the constructor returns or throws, the resource policy of the shared key
  holds, for each of the service principals \<^verbatim>\<open>sns\<close>, \<^verbatim>\<open>lambda\<close> and \<^verbatim>\<open>cloudwatch\<close>, the
  statement that allows this principal and no other the actions \<^verbatim>\<open>kms:Encrypt\<close>,
  \<^verbatim>\<open>kms:Decrypt\<close>, \<^verbatim>\<open>kms:ReEncrypt*\<close>, \<^verbatim>\<open>kms:GenerateDataKey*\<close> and \<^verbatim>\<open>kms:DescribeKey\<close>
  on every resource, without a condition. It holds the same statement for \<^verbatim>\<open>macie\<close>,
  and names that service principal at all, exactly when macie is enabled, and likewise
  for \<^verbatim>\<open>guardduty\<close>. The effect of each of these statements is \<^verbatim>\<open>Allow\<close>.
\<close>

theorem service_principals_of_key_policy:
  "\<lparr> sid = Some ''Allow Sns service to use the encryption key'', effect = None,
      principals = Some [ServicePrincipal ''sns.amazonaws.com''],
      actions = [''kms:Encrypt'', ''kms:Decrypt'', ''kms:ReEncrypt*'', ''kms:GenerateDataKey*'', ''kms:DescribeKey''],
      resources = [Lit ''*''], conditions = None \<rparr> \<in> set (acceleratorKeyPolicy env props)
 \<and> \<lparr> sid = Some ''Allow Lambda service to use the encryption key'', effect = None,
      principals = Some [ServicePrincipal ''lambda.amazonaws.com''],
      actions = [''kms:Encrypt'', ''kms:Decrypt'', ''kms:ReEncrypt*'', ''kms:GenerateDataKey*'', ''kms:DescribeKey''],
      resources = [Lit ''*''], conditions = None \<rparr> \<in> set (acceleratorKeyPolicy env props)
 \<and> \<lparr> sid = Some ''Allow Cloudwatch service to use the encryption key'', effect = None,
      principals = Some [ServicePrincipal ''cloudwatch.amazonaws.com''],
      actions = [''kms:Encrypt'', ''kms:Decrypt'', ''kms:ReEncrypt*'', ''kms:GenerateDataKey*'', ''kms:DescribeKey''],
      resources = [Lit ''*''], conditions = None \<rparr> \<in> set (acceleratorKeyPolicy env props)
 \<and> (\<lparr> sid = Some ''Allow Macie service to use the encryption key'', effect = None,
      principals = Some [ServicePrincipal ''macie.amazonaws.com''],
      actions = [''kms:Encrypt'', ''kms:Decrypt'', ''kms:ReEncrypt*'', ''kms:GenerateDataKey*'', ''kms:DescribeKey''],
      resources = [Lit ''*''], conditions = None \<rparr> \<in> set (acceleratorKeyPolicy env props))
      = macie_enable props
 \<and> (\<lparr> sid = Some ''Allow Guardduty service to use the encryption key'', effect = None,
      principals = Some [ServicePrincipal ''guardduty.amazonaws.com''],
      actions = [''kms:Encrypt'', ''kms:Decrypt'', ''kms:ReEncrypt*'', ''kms:GenerateDataKey*'', ''kms:DescribeKey''],
      resources = [Lit ''*''], conditions = None \<rparr> \<in> set (acceleratorKeyPolicy env props))
      = guardduty_enable props
 \<and> (\<exists>s \<in> set (acceleratorKeyPolicy env props).
        ServicePrincipal ''macie.amazonaws.com'' \<in> set (statementPrincipals s)) = macie_enable props
 \<and> (\<exists>s \<in> set (acceleratorKeyPolicy env props).
        ServicePrincipal ''guardduty.amazonaws.com'' \<in> set (statementPrincipals s)) = guardduty_enable props
 \<and> (\<forall>s \<in> set (acceleratorKeyPolicy env props). statementEffect s = ALLOW)
 \<and> statementPrincipals (serviceStatement item) = [ServicePrincipal (snd item)]
 \<and> {''kms:Encrypt'', ''kms:Decrypt''} \<subseteq> set (actions (serviceStatement item))"
proof -
  have rec: "\<lparr> sid = Some (''Allow '' @ n @ '' service to use the encryption key''), effect = None,
      principals = Some [ServicePrincipal p],
      actions = [''kms:Encrypt'', ''kms:Decrypt'', ''kms:ReEncrypt*'', ''kms:GenerateDataKey*'', ''kms:DescribeKey''],
      resources = [Lit ''*''], conditions = None \<rparr> = serviceStatement (n, p)" for n p
    by (simp add: serviceStatement_def)
  have eff: "\<forall>s \<in> set (acceleratorKeyPolicy env props). statementEffect s = ALLOW"
    unfolding acceleratorKeyPolicy_set
    by (auto simp: statementEffect_def serviceStatement_def cloudwatchLogsStatement_def
          acceleratorRoleStatement_def)
  have five:
    "serviceStatement (''Sns'', ''sns.amazonaws.com'') \<in> set (acceleratorKeyPolicy env props)
   \<and> serviceStatement (''Lambda'', ''lambda.amazonaws.com'') \<in> set (acceleratorKeyPolicy env props)
   \<and> serviceStatement (''Cloudwatch'', ''cloudwatch.amazonaws.com'') \<in> set (acceleratorKeyPolicy env props)
   \<and> (serviceStatement (''Macie'', ''macie.amazonaws.com'') \<in> set (acceleratorKeyPolicy env props))
        = macie_enable props
   \<and> (serviceStatement (''Guardduty'', ''guardduty.amazonaws.com'') \<in> set (acceleratorKeyPolicy env props))
        = guardduty_enable props
   \<and> (\<exists>s \<in> set (acceleratorKeyPolicy env props).
          ServicePrincipal ''macie.amazonaws.com'' \<in> set (statementPrincipals s)) = macie_enable props
   \<and> (\<exists>s \<in> set (acceleratorKeyPolicy env props).
          ServicePrincipal ''guardduty.amazonaws.com'' \<in> set (statementPrincipals s)) = guardduty_enable props
   \<and> statementPrincipals (serviceStatement item) = [ServicePrincipal (snd item)]
   \<and> {''kms:Encrypt'', ''kms:Decrypt''} \<subseteq> set (actions (serviceStatement item))"
    unfolding serviceStatement_in_policy servicePrincipal_in_policy allowedServicePrincipals_set
    by (simp add: serviceStatement_def statementPrincipals_def)
  show ?thesis
    using five eff
    unfolding rec[of "''Sns''", simplified] rec[of "''Lambda''", simplified]
      rec[of "''Cloudwatch''", simplified] rec[of "''Macie''", simplified]
      rec[of "''Guardduty''", simplified]
    by blast
qed

theorem service_principals_of_key_policy_witness:
  "macie_enable organizationProps \<and> \<not> guardduty_enable organizationProps
   \<and> \<lparr> sid = Some ''Allow Macie service to use the encryption key'', effect = None,
        principals = Some [ServicePrincipal ''macie.amazonaws.com''],
        actions = [''kms:Encrypt'', ''kms:Decrypt'', ''kms:ReEncrypt*'', ''kms:GenerateDataKey*'', ''kms:DescribeKey''],
        resources = [Lit ''*''], conditions = None \<rparr>
        \<in> set (acceleratorKeyPolicy exampleEnv organizationProps)
   \<and> \<lparr> sid = Some ''Allow Guardduty service to use the encryption key'', effect = None,
        principals = Some [ServicePrincipal ''guardduty.amazonaws.com''],
        actions = [''kms:Encrypt'', ''kms:Decrypt'', ''kms:ReEncrypt*'', ''kms:GenerateDataKey*'', ''kms:DescribeKey''],
        resources = [Lit ''*''], conditions = None \<rparr>
        \<notin> set (acceleratorKeyPolicy exampleEnv organizationProps)
   \<and> map statementEffect (acceleratorKeyPolicy exampleEnv organizationProps)
        = [ALLOW, ALLOW, ALLOW, ALLOW, ALLOW, ALLOW]"
proof -
  have f: "macie_enable organizationProps" "\<not> guardduty_enable organizationProps"
    by (simp_all add: organizationProps_def)
  note m = service_principals_of_key_policy [of exampleEnv organizationProps "(''Sns'', ''sns.amazonaws.com'')"]
  have len: "length (acceleratorKeyPolicy exampleEnv organizationProps) = 6"
    by (simp add: acceleratorKeyPolicy_eq allowedServicePrincipals_def organizationProps_def)
  have all: "\<forall>s \<in> set (acceleratorKeyPolicy exampleEnv organizationProps). statementEffect s = ALLOW"
    using m by blast
  have eff: "map statementEffect (acceleratorKeyPolicy exampleEnv organizationProps)
        = replicate (length (acceleratorKeyPolicy exampleEnv organizationProps)) ALLOW"
    using all by (simp add: map_replicate_const[symmetric] cong: map_cong)
  show ?thesis
    using m f eff unfolding len by (simp add: numeral_eq_Suc)
qed


section \<open>Properties of the session-logging settings provisioner\<close>

lemma addDependency_simps:
  "addDependency p d [] = []"
  "addDependency p d ((q, c) # t) =
     (if q = p then (q, addDependencyTo d c) else (q, c)) # addDependency p d t"
  "addDependency p d (t @ u) = addDependency p d t @ addDependency p d u"
  by (simp_all add: addDependency_def)

lemma unused_addToResourcePolicy:
  "unused ident t \<Longrightarrow> addToResourcePolicy (ident # q) s t = t"
  by (induction t) (auto simp: unused_def addToResourcePolicy_simps)

lemma unused_addDependency:
  "unused ident t \<Longrightarrow> addDependency (ident # q) d t = t"
  by (induction t) (auto simp: unused_def addDependency_simps)

lemma unused_map_of:
  "unused ident t \<Longrightarrow> map_of t (ident # q) = None"
  by (induction t) (auto simp: unused_def)

lemma unused_tryFindChild:
  "unused ident t \<Longrightarrow> tryFindChild (ident # q) (t @ u) = tryFindChild (ident # q) u"
  by (simp add: tryFindChild_def unused_map_of map_add_def split: option.splits)

lemma unused_Nil: "unused ident []"
  by (simp add: unused_def)

text \<open>The path that throws: the error, and the tree at the throw.\<close>

lemma SsmSessionManagerSettings_throws:
  assumes "unused ident t0" and "invalidS3 props"
  shows "SsmSessionManagerSettings env ident props t0 =
           (Inl (Error ''Bucket Key Arn and Bucket Name must be provided''),
            t0 @ [([ident], Construct)]
               @ (if sendToCloudWatchLogs props then cloudWatchNodes env ident else []))"
  using assms
  unfolding SsmSessionManagerSettings_def Let_def new_def invalidS3_def cloudWatchNodes_def
  by (simp add: addToResourcePolicy_simps unused_addToResourcePolicy)

text \<open>The throw of \<^verbatim>\<open>new LogGroup\<close> at line 420: the error, and the tree at the throw.
  Everything but the handler's log group is declared, and the custom resource has no
  dependency yet.\<close>

lemma SsmSessionManagerSettings_retention_throws:
  assumes "unused ident t0" and "\<not> invalidS3 props"
      and "declaresHandlerLogGroup ident t0" and "logRetentionInDays props \<le> 0"
  shows "SsmSessionManagerSettings env ident props t0 =
           (Inl (RetentionNotPositive (logRetentionInDays props)),
            t0 @ [([ident], Construct)]
               @ (if sendToCloudWatchLogs props then cloudWatchNodes env ident else [])
               @ sessionNodes env ident props
               @ (if tryFindChild [providerId] t0 = None \<and> ident \<noteq> providerId
                  then [providerNode env] else [])
               @ [([ident, ''Resource''], CustomResource (settingsResource ident props) [])])"
proof -
  have ne: "providerId \<noteq> handlerLogGroupId"
    by (simp add: providerId_def handlerLogGroupId_def)
  have pid: "''Custom::SessionManagerLogging'' @ ''CustomResourceProvider'' = providerId"
    by (simp add: providerId_def)
  have lg: "providerId @ ''LogGroup'' = handlerLogGroupId"
    by (simp add: providerId_def handlerLogGroupId_def)
  have look: "map_of t0 [ident, x] = None" for x
    using assms(1) by (rule unused_map_of)
  have look1: "map_of t0 [ident] = None"
    using assms(1) by (rule unused_map_of)
  have none: "map_of t0 [handlerLogGroupId] = None" "ident \<noteq> handlerLogGroupId"
    using assms(3) by (simp_all add: declaresHandlerLogGroup_def tryFindChild_def)
  show ?thesis
    using assms(1,2,4) ne none
    unfolding SsmSessionManagerSettings_def Let_def new_def invalidS3_def cloudWatchNodes_def
      sessionNodes_def agentStatements_def getOrCreateProvider_def tryFindChild_def
      providerNode_def settingsResource_def newLogGroup_def
    unfolding pid
    by (cases "sendToCloudWatchLogs props"; cases "map_of t0 [providerId]";
        cases "ident = providerId")
       (simp_all add: addToResourcePolicy_simps unused_addToResourcePolicy
          map_add_def look look1 lg)
qed

text \<open>The path that returns: the value of the field \<^verbatim>\<open>id\<close>, and the tree at the return.\<close>

lemma SsmSessionManagerSettings_returns:
  assumes "unused ident t0" and "\<not> invalidS3 props"
      and "0 < logRetentionInDays props \<or> \<not> declaresHandlerLogGroup ident t0"
  shows "SsmSessionManagerSettings env ident props t0 =
           (Inr (Attr [ident, ''Resource''] ''Ref''),
            t0 @ [([ident], Construct)]
               @ (if sendToCloudWatchLogs props then cloudWatchNodes env ident else [])
               @ sessionNodes env ident props
               @ (if tryFindChild [providerId] t0 = None \<and> ident \<noteq> providerId
                  then [providerNode env] else [])
               @ [settingsNode ident props]
               @ (if tryFindChild [handlerLogGroupId] t0 = None \<and> ident \<noteq> handlerLogGroupId
                  then [handlerLogGroupNode props] else []))"
proof -
  have ne: "providerId \<noteq> handlerLogGroupId"
    by (simp add: providerId_def handlerLogGroupId_def)
  have pid: "''Custom::SessionManagerLogging'' @ ''CustomResourceProvider'' = providerId"
    by (simp add: providerId_def)
  have lg: "providerId @ ''LogGroup'' = handlerLogGroupId"
    by (simp add: providerId_def handlerLogGroupId_def)
  have look: "map_of t0 [ident, x] = None" for x
    using assms(1) by (rule unused_map_of)
  have look1: "map_of t0 [ident] = None"
    using assms(1) by (rule unused_map_of)
  have pos: "map_of t0 [handlerLogGroupId] = None \<Longrightarrow> ident \<noteq> handlerLogGroupId
               \<Longrightarrow> 0 < logRetentionInDays props"
    using assms(3) by (auto simp: declaresHandlerLogGroup_def tryFindChild_def)
  show ?thesis
    using assms(1,2) ne pos
    unfolding SsmSessionManagerSettings_def Let_def new_def invalidS3_def cloudWatchNodes_def
      sessionNodes_def agentStatements_def getOrCreateProvider_def tryFindChild_def
      providerNode_def settingsNode_def settingsResource_def handlerLogGroupNode_def newLogGroup_def
    unfolding pid
    by (cases "sendToCloudWatchLogs props"; cases "map_of t0 [providerId]";
        cases "map_of t0 [handlerLogGroupId]"; cases "ident = providerId";
        cases "ident = handlerLogGroupId")
       (simp_all add: addToResourcePolicy_simps unused_addToResourcePolicy
          addDependency_simps unused_addDependency map_add_def look look1 lg)
qed

lemma SsmSessionManagerSettings_Inr:
  assumes "unused ident t0" and "SsmSessionManagerSettings env ident props t0 = (Inr x, t)"
  shows "\<not> invalidS3 props"
    and "0 < logRetentionInDays props \<or> \<not> declaresHandlerLogGroup ident t0"
proof -
  show 1: "\<not> invalidS3 props"
    using assms SsmSessionManagerSettings_throws[OF assms(1), of props env] by auto
  show "0 < logRetentionInDays props \<or> \<not> declaresHandlerLogGroup ident t0"
    using assms(2) SsmSessionManagerSettings_retention_throws[OF assms(1) 1, of env] by fastforce
qed

text \<open>Once the S3 check has passed, the agent policy is in the tree, whether the
  constructor returns or throws at line 420.\<close>

lemma agentPolicyDocument_valid:
  assumes "unused ident t0" and "\<not> invalidS3 props"
  shows "agentPolicyDocument ident (snd (SsmSessionManagerSettings env ident props t0))
           = agentStatements env ident props"
proof -
  have "\<exists>rest. snd (SsmSessionManagerSettings env ident props t0) =
          t0 @ [([ident], Construct)]
             @ (if sendToCloudWatchLogs props then cloudWatchNodes env ident else [])
             @ sessionNodes env ident props @ rest"
  proof (cases "0 < logRetentionInDays props \<or> \<not> declaresHandlerLogGroup ident t0")
    case True
    show ?thesis
      unfolding SsmSessionManagerSettings_returns[OF assms True] by simp
  next
    case False
    then have "declaresHandlerLogGroup ident t0" "logRetentionInDays props \<le> 0"
      by auto
    from SsmSessionManagerSettings_retention_throws[OF assms this, of env]
    show ?thesis by simp
  qed
  then obtain rest where t: "snd (SsmSessionManagerSettings env ident props t0) =
          t0 @ [([ident], Construct)]
             @ (if sendToCloudWatchLogs props then cloudWatchNodes env ident else [])
             @ sessionNodes env ident props @ rest"
    by blast
  show ?thesis
    unfolding agentPolicyDocument_def
    by (subst t, subst unused_tryFindChild[OF assms(1)])
       (simp add: tryFindChild_def cloudWatchNodes_def sessionNodes_def map_add_def)
qed

lemma agentPolicyDocument_returns:
  assumes "unused ident t0" and "SsmSessionManagerSettings env ident props t0 = (Inr x, t)"
  shows "agentPolicyDocument ident t = agentStatements env ident props"
  using agentPolicyDocument_valid[OF assms(1) SsmSessionManagerSettings_Inr(1)[OF assms], of env] assms(2)
  by simp


lemma SsmSessionManagerSettings_Inr_tree:
  assumes "unused ident t0" and "SsmSessionManagerSettings env ident props t0 = (Inr x, t)"
  shows "x = Attr [ident, ''Resource''] ''Ref''"
    and "t = t0 @ [([ident], Construct)]
               @ (if sendToCloudWatchLogs props then cloudWatchNodes env ident else [])
               @ sessionNodes env ident props
               @ (if tryFindChild [providerId] t0 = None \<and> ident \<noteq> providerId
                  then [providerNode env] else [])
               @ [settingsNode ident props]
               @ (if tryFindChild [handlerLogGroupId] t0 = None \<and> ident \<noteq> handlerLogGroupId
                  then [handlerLogGroupNode props] else [])"
proof -
  note ok = SsmSessionManagerSettings_Inr[OF assms]
  show "x = Attr [ident, ''Resource''] ''Ref''"
    using assms(2) SsmSessionManagerSettings_returns[OF assms(1) ok, of env] by simp
  show "t = t0 @ [([ident], Construct)]
               @ (if sendToCloudWatchLogs props then cloudWatchNodes env ident else [])
               @ sessionNodes env ident props
               @ (if tryFindChild [providerId] t0 = None \<and> ident \<noteq> providerId
                  then [providerNode env] else [])
               @ [settingsNode ident props]
               @ (if tryFindChild [handlerLogGroupId] t0 = None \<and> ident \<noteq> handlerLogGroupId
                  then [handlerLogGroupNode props] else [])"
    using assms(2) SsmSessionManagerSettings_returns[OF assms(1) ok, of env] by simp
qed

lemma statement_distinct:
  "channelStatement \<noteq> sessionKeyDecryptStatement k"
  "describeLogGroupsStatement env \<noteq> sessionKeyDecryptStatement k"
  "logStreamStatement env n \<noteq> sessionKeyDecryptStatement k"
  "putObjectStatement env props \<noteq> sessionKeyDecryptStatement k"
  "encryptionConfigurationStatement env props \<noteq> sessionKeyDecryptStatement k"
  "bucketKeyStatement props \<noteq> sessionKeyDecryptStatement k"
  by (simp_all add: channelStatement_def describeLogGroupsStatement_def logStreamStatement_def
        putObjectStatement_def encryptionConfigurationStatement_def bucketKeyStatement_def
        sessionKeyDecryptStatement_def)

lemma isLogsStatement_simps:
  "\<not> isLogsStatement channelStatement"
  "isLogsStatement (describeLogGroupsStatement env)"
  "isLogsStatement (logStreamStatement env n)"
  "\<not> isLogsStatement (putObjectStatement env props)"
  "\<not> isLogsStatement (encryptionConfigurationStatement env props)"
  "\<not> isLogsStatement (bucketKeyStatement props)"
  "\<not> isLogsStatement (sessionKeyDecryptStatement k)"
  by (simp_all add: isLogsStatement_def channelStatement_def describeLogGroupsStatement_def
        logStreamStatement_def putObjectStatement_def encryptionConfigurationStatement_def
        bucketKeyStatement_def sessionKeyDecryptStatement_def)

lemma logsStatements_agentStatements:
  "logsStatements (agentStatements env ident props) =
     (if sendToCloudWatchLogs props
      then [describeLogGroupsStatement env, logStreamStatement env ''aws-accelerator-session-manager-logs'']
      else [])"
  by (simp add: logsStatements_def agentStatements_def isLogsStatement_simps)

lemma objectWriteStatements_agentStatements:
  "objectWriteStatements (agentStatements env ident props) =
     (if sendToS3 props then [putObjectStatement env props] else [])"
proof -
  have "''s3:PutObject'' \<notin> set (actions channelStatement)"
       "''s3:PutObject'' \<notin> set (actions (describeLogGroupsStatement env))"
       "''s3:PutObject'' \<notin> set (actions (logStreamStatement env n))"
       "''s3:PutObject'' \<in> set (actions (putObjectStatement env props))"
       "''s3:PutObject'' \<notin> set (actions (encryptionConfigurationStatement env props))"
       "''s3:PutObject'' \<notin> set (actions (bucketKeyStatement props))"
       "''s3:PutObject'' \<notin> set (actions (sessionKeyDecryptStatement k))" for n k
    by (simp_all add: channelStatement_def describeLogGroupsStatement_def
        logStreamStatement_def putObjectStatement_def encryptionConfigurationStatement_def
        bucketKeyStatement_def sessionKeyDecryptStatement_def)
  then show ?thesis
    by (simp add: objectWriteStatements_def agentStatements_def)
qed

lemma logStream_scoped:
  "list_all (scopedToLogGroup env n) (resources (logStreamStatement env n))"
  by (simp add: logStreamStatement_def logGroupArn_def)

lemma describe_not_scoped:
  "\<not> list_all (scopedToLogGroup env ''aws-accelerator-session-manager-logs'')
        (resources (describeLogGroupsStatement env))"
  by (simp add: describeLogGroupsStatement_def logGroupArn_def)

lemma retention_noDestination:
  "0 < logRetentionInDays noDestination \<or> \<not> declaresHandlerLogGroup ident t"
  by (simp add: noDestination_def)

lemma retention_bothDestinations:
  "0 < logRetentionInDays bothDestinations \<or> \<not> declaresHandlerLogGroup ident t"
  by (simp add: bothDestinations_def)

lemma agentStatements_resources:
  "filter (\<lambda>s. resources s = [Attr k a]) (agentStatements env ident props) =
     (if k = [ident, ''SessionManagerSessionCmk''] \<and> a = ''keyArn''
      then [sessionKeyDecryptStatement [ident, ''SessionManagerSessionCmk'']] else [])"
  by (simp add: agentStatements_def channelStatement_def describeLogGroupsStatement_def
        logStreamStatement_def putObjectStatement_def encryptionConfigurationStatement_def
        bucketKeyStatement_def sessionKeyDecryptStatement_def)


text \<open>
  C1 (as the code has it). With \<^verbatim>\<open>sendToS3\<close> set and the bucket name or the key ARN
  missing (undefined or empty) the constructor fails with the validation error. The tree
  it started from is untouched. When \<^verbatim>\<open>sendToCloudWatchLogs\<close> is not set, no resource
  has been declared at the throw; when it is set, the key and the log group of the
  CloudWatch destination have been declared, and nothing else.
\<close>

theorem validation_error_and_declarations_at_throw:
  assumes "unused ident t0"
      and "sendToS3 props"
      and "\<not> truthy (s3BucketName props) \<or> \<not> truthy (s3BucketKeyArn props)"
  shows "fst (SsmSessionManagerSettings env ident props t0)
           = Inl (Error ''Bucket Key Arn and Bucket Name must be provided'')
       \<and> take (length t0) (snd (SsmSessionManagerSettings env ident props t0)) = t0
       \<and> resourcePaths (declared t0 (snd (SsmSessionManagerSettings env ident props t0)))
           = (if sendToCloudWatchLogs props
              then [[ident, ''SessionManagerLogsCmk''], [ident, ''sessionManagerLogGroup'']]
              else [])"
proof -
  have "invalidS3 props"
    using assms(2,3) by (auto simp: invalidS3_def)
  from SsmSessionManagerSettings_throws[OF assms(1) this, of env]
  show ?thesis
    by (simp add: declared_def resourcePaths_def cloudWatchNodes_def)
qed

theorem validation_error_and_declarations_at_throw_witness:
  "unused ''Settings'' []
   \<and> sendToS3 emptyBucket \<and> \<not> sendToCloudWatchLogs emptyBucket
   \<and> \<not> truthy (s3BucketName emptyBucket)
   \<and> fst (SsmSessionManagerSettings exampleEnv ''Settings'' emptyBucket [])
        = Inl (Error ''Bucket Key Arn and Bucket Name must be provided'')
   \<and> resourcePaths (declared [] (snd (SsmSessionManagerSettings exampleEnv ''Settings'' emptyBucket []))) = []"
  using validation_error_and_declarations_at_throw [of "''Settings''" "[]" emptyBucket exampleEnv]
  by (simp add: unused_def emptyBucket_def truthy_def)

text \<open>
  C1 as stated fails: with both destinations requested and no bucket name, the error is
  thrown while a key and a log group are declared already.
\<close>

theorem resources_declared_before_validation_error:
  "sendToS3 missingBucket \<and> sendToCloudWatchLogs missingBucket \<and> s3BucketName missingBucket = None
   \<and> fst (SsmSessionManagerSettings exampleEnv ''Settings'' missingBucket [])
        = Inl (Error ''Bucket Key Arn and Bucket Name must be provided'')
   \<and> resourcePaths (snd (SsmSessionManagerSettings exampleEnv ''Settings'' missingBucket []))
        = [[''Settings'', ''SessionManagerLogsCmk''], [''Settings'', ''sessionManagerLogGroup'']]"
proof -
  have bad: "invalidS3 missingBucket"
    by (simp add: invalidS3_def missingBucket_def truthy_def)
  from SsmSessionManagerSettings_throws[OF unused_Nil bad, where ident = "''Settings''" and env = exampleEnv]
  show ?thesis
    by (simp add: resourcePaths_def cloudWatchNodes_def) (simp add: missingBucket_def)
qed

text \<open>
  C4 (as the code has it). Whenever the constructor returns, it has declared exactly one
  session key, under the id \<^verbatim>\<open>SessionManagerSessionCmk\<close>. Its resource policy holds two
  statements, both with the effect \<^verbatim>\<open>Allow\<close> on every resource: one lets the root
  principal of the account do every \<^verbatim>\<open>kms\<close> action, the other lets the logs service
  principal of the region encrypt, decrypt, re-encrypt, generate data keys and describe,
  under the condition on the encryption context. The agent policy document holds
  exactly one statement on the ARN of this key, and it allows \<^verbatim>\<open>kms:Decrypt\<close> and nothing
  else. The two destination flags play no part.
\<close>

theorem session_key_declared_once:
  assumes "unused ident t0"
      and "SsmSessionManagerSettings env ident props t0 = (Inr x, t)"
  shows "sessionKeys (declared t0 t) =
           [([ident, ''SessionManagerSessionCmk''],
             Key \<lparr> keyAlias = ''accelerator/session-manager-logging/session'',
                   keyDescription = ''AWS Accelerator Cloud Watch Logs CMK for Session Manager Logs'',
                   enableKeyRotation = True, removalPolicy = None \<rparr>
                 [\<lparr> sid = Some ''Enable IAM User Permissions'', effect = None,
                    principals = Some [AccountRootPrincipal],
                    actions = [''kms:*''],
                    resources = [Lit ''*''],
                    conditions = None \<rparr>,
                  \<lparr> sid = Some ''Allow Cloud Watch Logs access'', effect = None,
                    principals = Some [ServicePrincipal (''logs.'' @ stack_region env @ ''.amazonaws.com.cn'')],
                    actions = [''kms:Encrypt*'', ''kms:Decrypt*'', ''kms:ReEncrypt*'',
                               ''kms:GenerateDataKey*'', ''kms:Describe*''],
                    resources = [Lit ''*''],
                    conditions = Some [(''ArnLike'', [(''kms:EncryptionContext:aws:logs:arn'',
                       CondStr (''arn:'' @ stack_partition env @ '':logs:'' @ stack_region env @ '':''
                                @ stack_account env @ '':*''))])] \<rparr>])]
       \<and> map statementEffect (keyPolicy (tryFindChild [ident, ''SessionManagerSessionCmk''] t))
           = [ALLOW, ALLOW]
       \<and> map statementPrincipals (keyPolicy (tryFindChild [ident, ''SessionManagerSessionCmk''] t))
           = [[AccountRootPrincipal],
              [ServicePrincipal (''logs.'' @ stack_region env @ ''.amazonaws.com.cn'')]]
       \<and> filter (\<lambda>s. resources s = [Attr [ident, ''SessionManagerSessionCmk''] ''keyArn''])
            (agentPolicyDocument ident t)
           = [\<lparr> sid = None, effect = Some ALLOW, principals = None,
                actions = [''kms:Decrypt''],
                resources = [Attr [ident, ''SessionManagerSessionCmk''] ''keyArn''],
                conditions = None \<rparr>]
       \<and> count_list (agentPolicyDocument ident t)
            \<lparr> sid = None, effect = Some ALLOW, principals = None,
              actions = [''kms:Decrypt''],
              resources = [Attr [ident, ''SessionManagerSessionCmk''] ''keyArn''],
              conditions = None \<rparr> = 1"
proof -
  note t = SsmSessionManagerSettings_Inr_tree(2)[OF assms]
  have 1: "sessionKeys (declared t0 t) =
           [([ident, ''SessionManagerSessionCmk''],
             Key \<lparr> keyAlias = ''accelerator/session-manager-logging/session'',
                   keyDescription = ''AWS Accelerator Cloud Watch Logs CMK for Session Manager Logs'',
                   enableKeyRotation = True, removalPolicy = None \<rparr>
                 [iamUserPermissionsStatement, cloudWatchLogsAccessStatement env])]"
    by (subst t)
       (simp add: declared_def sessionKeys_def cloudWatchNodes_def sessionNodes_def
          providerNode_def settingsNode_def handlerLogGroupNode_def)
  have k: "keyPolicy (tryFindChild [ident, ''SessionManagerSessionCmk''] t)
             = [iamUserPermissionsStatement, cloudWatchLogsAccessStatement env]"
    by (subst t, subst unused_tryFindChild[OF assms(1)])
       (simp add: tryFindChild_def cloudWatchNodes_def sessionNodes_def map_add_def)
  have d: "sessionKeyDecryptStatement [ident, ''SessionManagerSessionCmk''] =
             \<lparr> sid = None, effect = Some ALLOW, principals = None,
               actions = [''kms:Decrypt''],
               resources = [Attr [ident, ''SessionManagerSessionCmk''] ''keyArn''],
               conditions = None \<rparr>"
    by (simp add: sessionKeyDecryptStatement_def)
  have 2: "count_list (agentPolicyDocument ident t)
           (sessionKeyDecryptStatement [ident, ''SessionManagerSessionCmk'']) = 1"
    by (simp add: agentPolicyDocument_returns[OF assms] agentStatements_def statement_distinct)
  have 3: "filter (\<lambda>s. resources s = [Attr [ident, ''SessionManagerSessionCmk''] ''keyArn''])
            (agentPolicyDocument ident t)
           = [sessionKeyDecryptStatement [ident, ''SessionManagerSessionCmk'']]"
    by (simp add: agentPolicyDocument_returns[OF assms] agentStatements_resources)
  show ?thesis
    using 1 2 3 unfolding k d
    by (simp add: statementPrincipals_def statementEffect_def iamUserPermissionsStatement_def
          cloudWatchLogsAccessStatement_def)
qed

theorem session_key_declared_once_witness:
  "unused ''Settings'' []
   \<and> fst (SsmSessionManagerSettings exampleEnv ''Settings'' noDestination [])
        = Inr (Attr [''Settings'', ''Resource''] ''Ref'')
   \<and> map fst (sessionKeys (snd (SsmSessionManagerSettings exampleEnv ''Settings'' noDestination [])))
        = [[''Settings'', ''SessionManagerSessionCmk'']]
   \<and> count_list (agentPolicyDocument ''Settings''
                    (snd (SsmSessionManagerSettings exampleEnv ''Settings'' noDestination [])))
        (sessionKeyDecryptStatement [''Settings'', ''SessionManagerSessionCmk'']) = 1"
proof -
  have ok: "\<not> invalidS3 noDestination"
    by (simp add: invalidS3_def noDestination_def)
  have f: "fst (SsmSessionManagerSettings exampleEnv ''Settings'' noDestination [])
            = Inr (Attr [''Settings'', ''Resource''] ''Ref'')"
    by (simp add: SsmSessionManagerSettings_returns[OF unused_Nil ok retention_noDestination])
  then have r: "SsmSessionManagerSettings exampleEnv ''Settings'' noDestination []
            = (Inr (Attr [''Settings'', ''Resource''] ''Ref''),
               snd (SsmSessionManagerSettings exampleEnv ''Settings'' noDestination []))"
    by (simp add: prod_eq_iff)
  note m = session_key_declared_once[OF unused_Nil r]
  have k: "map fst (sessionKeys (snd (SsmSessionManagerSettings exampleEnv ''Settings'' noDestination [])))
        = [[''Settings'', ''SessionManagerSessionCmk'']]"
    using m[THEN conjunct1] by (simp add: declared_def)
  have c: "count_list (agentPolicyDocument ''Settings''
                    (snd (SsmSessionManagerSettings exampleEnv ''Settings'' noDestination [])))
        (sessionKeyDecryptStatement [''Settings'', ''SessionManagerSessionCmk'']) = 1"
    using m[THEN conjunct2, THEN conjunct2, THEN conjunct2, THEN conjunct2]
    by (simp add: sessionKeyDecryptStatement_def)
  show ?thesis
    by (intro conjI unused_Nil f k c)
qed

text \<open>
  C4 as stated fails: a configuration that requests the S3 destination without a bucket
  name gets the error and no session key.
\<close>

theorem no_session_key_after_validation_error:
  "sendToS3 missingBucket \<and> s3BucketName missingBucket = None
   \<and> fst (SsmSessionManagerSettings exampleEnv ''Settings'' missingBucket [])
        = Inl (Error ''Bucket Key Arn and Bucket Name must be provided'')
   \<and> sessionKeys (snd (SsmSessionManagerSettings exampleEnv ''Settings'' missingBucket [])) = []
   \<and> agentPolicyDocument ''Settings''
        (snd (SsmSessionManagerSettings exampleEnv ''Settings'' missingBucket [])) = []"
proof -
  have bad: "invalidS3 missingBucket"
    by (simp add: invalidS3_def missingBucket_def truthy_def)
  from SsmSessionManagerSettings_throws[OF unused_Nil bad, where ident = "''Settings''" and env = exampleEnv]
  show ?thesis
    by (simp add: sessionKeys_def cloudWatchNodes_def agentPolicyDocument_def tryFindChild_def)
       (simp add: missingBucket_def)
qed

text \<open>
  C5. Whenever the constructor returns, the agent policy document is the channel
  statement, then the block of each enabled destination (two statements for CloudWatch
  logs, three for S3), then the decrypt statement of the session key. So of two
  configurations that both return, the one whose enabled destinations are among those of
  the other has at most as many statements.
\<close>

theorem agent_policy_statement_count_monotone:
  assumes "unused ident1 ta"
      and "SsmSessionManagerSettings env1 ident1 props1 ta = (Inr x1, t1)"
      and "unused ident2 tb"
      and "SsmSessionManagerSettings env2 ident2 props2 tb = (Inr x2, t2)"
      and "set (enabledDestinations props1) \<subseteq> set (enabledDestinations props2)"
  shows "length (agentPolicyDocument ident1 t1) \<le> length (agentPolicyDocument ident2 t2)
       \<and> agentPolicyDocument ident1 t1 =
           [channelStatement]
           @ concat (map (destinationBlock env1 props1) (enabledDestinations props1))
           @ [sessionKeyDecryptStatement [ident1, ''SessionManagerSessionCmk'']]
       \<and> length (agentPolicyDocument ident1 t1) =
           2 + (if sendToCloudWatchLogs props1 then 2 else 0) + (if sendToS3 props1 then 3 else 0)
       \<and> length (enabledDestinations props1) \<le> 2"
proof -
  have 1: "agentPolicyDocument ident1 t1 = agentStatements env1 ident1 props1"
    using assms(1,2) by (rule agentPolicyDocument_returns)
  have 2: "agentPolicyDocument ident2 t2 = agentStatements env2 ident2 props2"
    using assms(3,4) by (rule agentPolicyDocument_returns)
  have 3: "sendToCloudWatchLogs props1 \<longrightarrow> sendToCloudWatchLogs props2"
    using assms(5) by (auto simp: enabledDestinations_def split: if_splits)
  have 4: "sendToS3 props1 \<longrightarrow> sendToS3 props2"
    using assms(5) by (auto simp: enabledDestinations_def split: if_splits)
  show ?thesis
    unfolding 1 2 using 3 4
    by (simp add: agentStatements_def enabledDestinations_def)
qed

theorem agent_policy_statement_count_monotone_witness:
  "unused ''Settings'' []
   \<and> set (enabledDestinations noDestination) \<subseteq> set (enabledDestinations bothDestinations)
   \<and> fst (SsmSessionManagerSettings exampleEnv ''Settings'' noDestination [])
        = Inr (Attr [''Settings'', ''Resource''] ''Ref'')
   \<and> fst (SsmSessionManagerSettings exampleEnv ''Settings'' bothDestinations [])
        = Inr (Attr [''Settings'', ''Resource''] ''Ref'')
   \<and> length (agentPolicyDocument ''Settings''
               (snd (SsmSessionManagerSettings exampleEnv ''Settings'' noDestination []))) = 2
   \<and> length (agentPolicyDocument ''Settings''
               (snd (SsmSessionManagerSettings exampleEnv ''Settings'' bothDestinations []))) = 7"
proof -
  have ok1: "\<not> invalidS3 noDestination"
    by (simp add: invalidS3_def noDestination_def)
  have ok2: "\<not> invalidS3 bothDestinations"
    by (simp add: invalidS3_def bothDestinations_def truthy_def)
  have f1: "fst (SsmSessionManagerSettings exampleEnv ''Settings'' noDestination [])
            = Inr (Attr [''Settings'', ''Resource''] ''Ref'')"
    by (simp add: SsmSessionManagerSettings_returns[OF unused_Nil ok1 retention_noDestination])
  then have r1: "SsmSessionManagerSettings exampleEnv ''Settings'' noDestination []
            = (Inr (Attr [''Settings'', ''Resource''] ''Ref''),
               snd (SsmSessionManagerSettings exampleEnv ''Settings'' noDestination []))"
    by (simp add: prod_eq_iff)
  have f2: "fst (SsmSessionManagerSettings exampleEnv ''Settings'' bothDestinations [])
            = Inr (Attr [''Settings'', ''Resource''] ''Ref'')"
    by (simp add: SsmSessionManagerSettings_returns[OF unused_Nil ok2 retention_bothDestinations])
  then have r2: "SsmSessionManagerSettings exampleEnv ''Settings'' bothDestinations []
            = (Inr (Attr [''Settings'', ''Resource''] ''Ref''),
               snd (SsmSessionManagerSettings exampleEnv ''Settings'' bothDestinations []))"
    by (simp add: prod_eq_iff)
  have sub: "set (enabledDestinations noDestination) \<subseteq> set (enabledDestinations bothDestinations)"
    by (simp add: enabledDestinations_def noDestination_def)
  have f: "sendToS3 bothDestinations" "sendToCloudWatchLogs bothDestinations"
          "\<not> sendToS3 noDestination" "\<not> sendToCloudWatchLogs noDestination"
    by (simp_all add: bothDestinations_def noDestination_def)
  note m1 = agent_policy_statement_count_monotone[OF unused_Nil r1 unused_Nil r2 sub]
  note m2 = agent_policy_statement_count_monotone[OF unused_Nil r2 unused_Nil r2 subset_refl]
  have l1: "length (agentPolicyDocument ''Settings''
               (snd (SsmSessionManagerSettings exampleEnv ''Settings'' noDestination []))) = 2"
    using m1[THEN conjunct2, THEN conjunct2, THEN conjunct1] f by simp
  have l2: "length (agentPolicyDocument ''Settings''
               (snd (SsmSessionManagerSettings exampleEnv ''Settings'' bothDestinations []))) = 7"
    using m2[THEN conjunct2, THEN conjunct2, THEN conjunct1] f by simp
  show ?thesis
    by (intro conjI unused_Nil sub f1 f2 l1 l2)
qed


text \<open>
  C6 (as the code has it). With \<^verbatim>\<open>sendToCloudWatchLogs\<close> set and the constructor
  returning, the agent policy document holds two statements on log actions. The one for
  \<^verbatim>\<open>logs:CreateLogStream\<close>, \<^verbatim>\<open>logs:PutLogEvents\<close> and \<^verbatim>\<open>logs:DescribeLogStreams\<close> has one
  resource, the ARN of the declared session-manager log group followed by \<^verbatim>\<open>:*\<close>. The
  one for \<^verbatim>\<open>logs:DescribeLogGroups\<close> has the resource
  \<^verbatim>\<open>arn:<partition>:logs:<region>:<account>:log-group:*\<close>, every log group of the account
  in the region, and is the only one not scoped to the declared log group.
\<close>

theorem log_statements_scope:
  assumes "unused ident t0"
      and "sendToCloudWatchLogs props"
      and "SsmSessionManagerSettings env ident props t0 = (Inr x, t)"
  shows "logsStatements (agentPolicyDocument ident t) =
           [describeLogGroupsStatement env, logStreamStatement env ''aws-accelerator-session-manager-logs'']
       \<and> map_option lg_logGroupName (logGroupProps (tryFindChild [ident, ''sessionManagerLogGroup''] t))
           = Some (Lit ''aws-accelerator-session-manager-logs'')
       \<and> actions (logStreamStatement env ''aws-accelerator-session-manager-logs'')
           = [''logs:CreateLogStream'', ''logs:PutLogEvents'', ''logs:DescribeLogStreams'']
       \<and> resources (logStreamStatement env ''aws-accelerator-session-manager-logs'')
           = [Lit (logGroupArn env ''aws-accelerator-session-manager-logs'' @ '':*'')]
       \<and> list_all (scopedToLogGroup env ''aws-accelerator-session-manager-logs'')
            (resources (logStreamStatement env ''aws-accelerator-session-manager-logs''))
       \<and> actions (describeLogGroupsStatement env) = [''logs:DescribeLogGroups'']
       \<and> resources (describeLogGroupsStatement env)
           = [Lit (''arn:'' @ stack_partition env @ '':logs:'' @ stack_region env @ '':''
                   @ stack_account env @ '':log-group:*'')]
       \<and> unscopedLogsStatements env ''aws-accelerator-session-manager-logs'' (agentPolicyDocument ident t)
           = [describeLogGroupsStatement env]"
proof -
  note t = SsmSessionManagerSettings_Inr_tree(2)[OF assms(1,3)]
  have doc: "agentPolicyDocument ident t = agentStatements env ident props"
    using assms(1,3) by (rule agentPolicyDocument_returns)
  have 1: "logsStatements (agentPolicyDocument ident t) =
           [describeLogGroupsStatement env, logStreamStatement env ''aws-accelerator-session-manager-logs'']"
    using assms(2) by (simp add: doc logsStatements_agentStatements)
  have 2: "map_option lg_logGroupName (logGroupProps (tryFindChild [ident, ''sessionManagerLogGroup''] t))
           = Some (Lit ''aws-accelerator-session-manager-logs'')"
    using assms(2)
    by (subst t, subst unused_tryFindChild[OF assms(1)])
       (simp add: tryFindChild_def cloudWatchNodes_def)
  have 3: "unscopedLogsStatements env ''aws-accelerator-session-manager-logs'' (agentPolicyDocument ident t)
           = [describeLogGroupsStatement env]"
    unfolding unscopedLogsStatements_def 1
    using logStream_scoped[of env "''aws-accelerator-session-manager-logs''"] describe_not_scoped[of env]
    by simp
  have 4: "resources (logStreamStatement env ''aws-accelerator-session-manager-logs'')
           = [Lit (logGroupArn env ''aws-accelerator-session-manager-logs'' @ '':*'')]"
    by (simp add: logStreamStatement_def logGroupArn_def)
  show ?thesis
    using 1 2 3 4 logStream_scoped[of env "''aws-accelerator-session-manager-logs''"]
    by (simp add: describeLogGroupsStatement_def) (simp add: logStreamStatement_def)
qed

theorem log_statements_scope_witness:
  "unused ''Settings'' [] \<and> sendToCloudWatchLogs bothDestinations
   \<and> fst (SsmSessionManagerSettings exampleEnv ''Settings'' bothDestinations [])
        = Inr (Attr [''Settings'', ''Resource''] ''Ref'')
   \<and> map resources (logsStatements (agentPolicyDocument ''Settings''
        (snd (SsmSessionManagerSettings exampleEnv ''Settings'' bothDestinations []))))
      = [[Lit ''arn:aws-cn:logs:cn-north-1:111111111111:log-group:*''],
         [Lit ''arn:aws-cn:logs:cn-north-1:111111111111:log-group:aws-accelerator-session-manager-logs:*'']]"
proof -
  have ok: "\<not> invalidS3 bothDestinations"
    by (simp add: invalidS3_def bothDestinations_def truthy_def)
  have cw: "sendToCloudWatchLogs bothDestinations"
    by (simp add: bothDestinations_def)
  have f: "fst (SsmSessionManagerSettings exampleEnv ''Settings'' bothDestinations [])
            = Inr (Attr [''Settings'', ''Resource''] ''Ref'')"
    by (simp add: SsmSessionManagerSettings_returns[OF unused_Nil ok retention_bothDestinations])
  then have r: "SsmSessionManagerSettings exampleEnv ''Settings'' bothDestinations []
            = (Inr (Attr [''Settings'', ''Resource''] ''Ref''),
               snd (SsmSessionManagerSettings exampleEnv ''Settings'' bothDestinations []))"
    by (simp add: prod_eq_iff)
  note m = log_statements_scope[OF unused_Nil cw r]
  have l: "map resources (logsStatements (agentPolicyDocument ''Settings''
        (snd (SsmSessionManagerSettings exampleEnv ''Settings'' bothDestinations []))))
      = [[Lit ''arn:aws-cn:logs:cn-north-1:111111111111:log-group:*''],
         [Lit ''arn:aws-cn:logs:cn-north-1:111111111111:log-group:aws-accelerator-session-manager-logs:*'']]"
    unfolding m[THEN conjunct1]
    by (simp add: describeLogGroupsStatement_def logStreamStatement_def exampleEnv_def)
  show ?thesis
    by (intro conjI unused_Nil cw f l)
qed

text \<open>
  C6 as stated fails: the statement for \<^verbatim>\<open>logs:DescribeLogGroups\<close> is in the agent
  policy, and its resource is not within the declared log group.
\<close>

theorem describe_log_groups_not_scoped:
  "sendToCloudWatchLogs bothDestinations
   \<and> unscopedLogsStatements exampleEnv ''aws-accelerator-session-manager-logs''
        (agentPolicyDocument ''Settings''
           (snd (SsmSessionManagerSettings exampleEnv ''Settings'' bothDestinations [])))
      = [describeLogGroupsStatement exampleEnv]
   \<and> actions (describeLogGroupsStatement exampleEnv) = [''logs:DescribeLogGroups'']
   \<and> resources (describeLogGroupsStatement exampleEnv)
      = [Lit ''arn:aws-cn:logs:cn-north-1:111111111111:log-group:*'']"
proof -
  have ok: "\<not> invalidS3 bothDestinations"
    by (simp add: invalidS3_def bothDestinations_def truthy_def)
  have cw: "sendToCloudWatchLogs bothDestinations"
    by (simp add: bothDestinations_def)
  have r: "SsmSessionManagerSettings exampleEnv ''Settings'' bothDestinations []
            = (Inr (Attr [''Settings'', ''Resource''] ''Ref''),
               snd (SsmSessionManagerSettings exampleEnv ''Settings'' bothDestinations []))"
    by (simp add: SsmSessionManagerSettings_returns[OF unused_Nil ok retention_bothDestinations])
  have doc: "agentPolicyDocument ''Settings''
           (snd (SsmSessionManagerSettings exampleEnv ''Settings'' bothDestinations []))
        = agentStatements exampleEnv ''Settings'' bothDestinations"
    using unused_Nil r by (rule agentPolicyDocument_returns)
  have u: "unscopedLogsStatements exampleEnv ''aws-accelerator-session-manager-logs''
        (agentPolicyDocument ''Settings''
           (snd (SsmSessionManagerSettings exampleEnv ''Settings'' bothDestinations [])))
      = [describeLogGroupsStatement exampleEnv]"
    unfolding doc unscopedLogsStatements_def logsStatements_agentStatements
    using cw logStream_scoped[of exampleEnv "''aws-accelerator-session-manager-logs''"]
      describe_not_scoped[of exampleEnv]
    by simp
  have a: "actions (describeLogGroupsStatement exampleEnv) = [''logs:DescribeLogGroups'']"
    by (simp add: describeLogGroupsStatement_def)
  have s: "resources (describeLogGroupsStatement exampleEnv)
      = [Lit ''arn:aws-cn:logs:cn-north-1:111111111111:log-group:*'']"
    by (simp add: describeLogGroupsStatement_def exampleEnv_def)
  show ?thesis
    by (intro conjI cw u a s)
qed

text \<open>
  C9. With \<^verbatim>\<open>sendToCloudWatchLogs\<close> not set and the constructor returning, the custom
  resource of type \<^verbatim>\<open>Custom::SsmSessionManagerSettings\<close> is declared under the id
  \<^verbatim>\<open>Resource\<close>, and its property \<^verbatim>\<open>cloudWatchLogGroupName\<close> is the empty string.
\<close>

theorem empty_log_group_name_without_cloudwatch:
  assumes "unused ident t0"
      and "\<not> sendToCloudWatchLogs props"
      and "SsmSessionManagerSettings env ident props t0 = (Inr x, t)"
  shows "map_option resourceType (customResourceProps (tryFindChild [ident, ''Resource''] t))
           = Some ''Custom::SsmSessionManagerSettings''
       \<and> map_option (prop_cloudWatchLogGroupName \<circ> properties)
            (customResourceProps (tryFindChild [ident, ''Resource''] t)) = Some (Lit '''')
       \<and> x = Attr [ident, ''Resource''] ''Ref''"
proof -
  note t = SsmSessionManagerSettings_Inr_tree(2)[OF assms(1,3)]
  have "tryFindChild [ident, ''Resource''] t = Some (snd (settingsNode ident props))"
    by (subst t, subst unused_tryFindChild[OF assms(1)])
       (simp add: tryFindChild_def cloudWatchNodes_def sessionNodes_def providerNode_def
          settingsNode_def)
  then show ?thesis
    using assms(2) SsmSessionManagerSettings_Inr_tree(1)[OF assms(1,3)]
    by (simp add: settingsNode_def settingsResource_def)
qed

theorem empty_log_group_name_without_cloudwatch_witness:
  "unused ''Settings'' [] \<and> \<not> sendToCloudWatchLogs noDestination
   \<and> fst (SsmSessionManagerSettings exampleEnv ''Settings'' noDestination [])
        = Inr (Attr [''Settings'', ''Resource''] ''Ref'')
   \<and> map_option (prop_cloudWatchLogGroupName \<circ> properties)
        (customResourceProps (tryFindChild [''Settings'', ''Resource'']
           (snd (SsmSessionManagerSettings exampleEnv ''Settings'' noDestination [])))) = Some (Lit '''')"
proof -
  have ok: "\<not> invalidS3 noDestination"
    by (simp add: invalidS3_def noDestination_def)
  have cw: "\<not> sendToCloudWatchLogs noDestination"
    by (simp add: noDestination_def)
  have f: "fst (SsmSessionManagerSettings exampleEnv ''Settings'' noDestination [])
            = Inr (Attr [''Settings'', ''Resource''] ''Ref'')"
    by (simp add: SsmSessionManagerSettings_returns[OF unused_Nil ok retention_noDestination])
  then have r: "SsmSessionManagerSettings exampleEnv ''Settings'' noDestination []
            = (Inr (Attr [''Settings'', ''Resource''] ''Ref''),
               snd (SsmSessionManagerSettings exampleEnv ''Settings'' noDestination []))"
    by (simp add: prod_eq_iff)
  note m = empty_log_group_name_without_cloudwatch[OF unused_Nil cw r]
  show ?thesis
    by (intro conjI unused_Nil cw f m[THEN conjunct2, THEN conjunct1])
qed

text \<open>
  C10 (as the code has it). With \<^verbatim>\<open>sendToS3\<close> set and both the bucket name and the key
  ARN given and not empty, the agent policy is declared and its document holds one
  statement for \<^verbatim>\<open>s3:PutObject\<close>, with the effect \<^verbatim>\<open>Allow\<close>; its resource is
  \<^verbatim>\<open>arn:<partition>:s3:::<bucket>/<prefix>/*\<close> when the key prefix is a non-empty string
  and \<^verbatim>\<open>arn:<partition>:s3:::<bucket>/*\<close> when the key prefix is undefined or empty. This
  is so whether the constructor goes on to return or throws at line 420.
\<close>

theorem object_write_resource:
  assumes "unused ident t0"
      and "sendToS3 props"
      and "s3BucketName props = Some bucket" and "bucket \<noteq> []"
      and "s3BucketKeyArn props = Some keyArn" and "keyArn \<noteq> []"
  shows "objectWriteStatements
            (agentPolicyDocument ident (snd (SsmSessionManagerSettings env ident props t0)))
           = [\<lparr> sid = None, effect = Some ALLOW, principals = None,
                actions = [''s3:PutObject'', ''s3:PutObjectAcl''],
                resources =
                  [Lit (''arn:'' @ stack_partition env @ '':s3:::'' @ bucket @ ''/''
                        @ (case s3KeyPrefix props of
                             None \<Rightarrow> ''*''
                           | Some pre \<Rightarrow> if pre = [] then ''*'' else pre @ ''/*''))],
                conditions = None \<rparr>]"
proof -
  have ok: "\<not> invalidS3 props"
    using assms(3-6) by (simp add: invalidS3_def truthy_def)
  have doc: "agentPolicyDocument ident (snd (SsmSessionManagerSettings env ident props t0))
        = agentStatements env ident props"
    using assms(1) ok by (rule agentPolicyDocument_valid)
  show ?thesis
    unfolding doc objectWriteStatements_agentStatements
    using assms(2,3)
    by (simp add: putObjectStatement_def str_def truthy_def split: option.splits)
qed

theorem object_write_resource_witness:
  "unused ''Settings'' [] \<and> sendToS3 bothDestinations
   \<and> s3BucketName bothDestinations = Some ''session-logs''
   \<and> s3BucketKeyArn bothDestinations = Some ''arn:aws-cn:kms:cn-north-1:111111111111:key/k1''
   \<and> s3KeyPrefix bothDestinations = Some ''ssm''
   \<and> map resources (objectWriteStatements
        (agentPolicyDocument ''Settings''
           (snd (SsmSessionManagerSettings exampleEnv ''Settings'' bothDestinations []))))
      = [[Lit ''arn:aws-cn:s3:::session-logs/ssm/*'']]
   \<and> sendToS3 zeroRetention \<and> s3KeyPrefix zeroRetention = None
   \<and> fst (SsmSessionManagerSettings exampleEnv ''Settings'' zeroRetention [])
      = Inl (RetentionNotPositive 0)
   \<and> map resources (objectWriteStatements
        (agentPolicyDocument ''Settings''
           (snd (SsmSessionManagerSettings exampleEnv ''Settings'' zeroRetention []))))
      = [[Lit ''arn:aws-cn:s3:::session-logs/*'']]"
proof -
  have p: "sendToS3 bothDestinations"
      "s3BucketName bothDestinations = Some ''session-logs''" "''session-logs'' \<noteq> []"
      "s3BucketKeyArn bothDestinations = Some ''arn:aws-cn:kms:cn-north-1:111111111111:key/k1''"
      "''arn:aws-cn:kms:cn-north-1:111111111111:key/k1'' \<noteq> []"
      "s3KeyPrefix bothDestinations = Some ''ssm''"
    by (simp_all add: bothDestinations_def)
  have q: "sendToS3 zeroRetention"
      "s3BucketName zeroRetention = Some ''session-logs''" "''session-logs'' \<noteq> []"
      "s3BucketKeyArn zeroRetention = Some ''arn:aws-cn:kms:cn-north-1:111111111111:key/k1''"
      "''arn:aws-cn:kms:cn-north-1:111111111111:key/k1'' \<noteq> []"
      "s3KeyPrefix zeroRetention = None"
    by (simp_all add: zeroRetention_def)
  note m = object_write_resource[OF unused_Nil p(1-5), where env = exampleEnv and ident = "''Settings''"]
  note n = object_write_resource[OF unused_Nil q(1-5), where env = exampleEnv and ident = "''Settings''"]
  have l: "map resources (objectWriteStatements
        (agentPolicyDocument ''Settings''
           (snd (SsmSessionManagerSettings exampleEnv ''Settings'' bothDestinations []))))
      = [[Lit ''arn:aws-cn:s3:::session-logs/ssm/*'']]"
    unfolding m by (simp add: p(6) exampleEnv_def)
  have l0: "map resources (objectWriteStatements
        (agentPolicyDocument ''Settings''
           (snd (SsmSessionManagerSettings exampleEnv ''Settings'' zeroRetention []))))
      = [[Lit ''arn:aws-cn:s3:::session-logs/*'']]"
    unfolding n by (simp add: q(6) exampleEnv_def)
  have ok: "\<not> invalidS3 zeroRetention"
    by (simp add: invalidS3_def zeroRetention_def truthy_def)
  have dl: "declaresHandlerLogGroup ''Settings'' []"
    by (simp add: declaresHandlerLogGroup_def tryFindChild_def handlerLogGroupId_def)
  have z: "logRetentionInDays zeroRetention \<le> 0" "logRetentionInDays zeroRetention = 0"
    by (simp_all add: zeroRetention_def)
  have e: "fst (SsmSessionManagerSettings exampleEnv ''Settings'' zeroRetention [])
      = Inl (RetentionNotPositive 0)"
    by (simp add: SsmSessionManagerSettings_retention_throws[OF unused_Nil ok dl z(1)] z(2))
  show ?thesis
    by (intro conjI unused_Nil p(1,2,4,6) l q(1,6) e l0)
qed

text \<open>
  C10 as stated fails: a bucket name that is present but empty is refused like a missing
  one, and no statement for \<^verbatim>\<open>s3:PutObject\<close> exists.
\<close>

theorem empty_bucket_name_is_refused:
  "sendToS3 emptyBucket \<and> s3BucketName emptyBucket = Some ''''
   \<and> s3BucketKeyArn emptyBucket = Some ''arn:aws-cn:kms:cn-north-1:111111111111:key/k1''
   \<and> fst (SsmSessionManagerSettings exampleEnv ''Settings'' emptyBucket [])
        = Inl (Error ''Bucket Key Arn and Bucket Name must be provided'')
   \<and> objectWriteStatements (agentPolicyDocument ''Settings''
        (snd (SsmSessionManagerSettings exampleEnv ''Settings'' emptyBucket []))) = []"
proof -
  have bad: "invalidS3 emptyBucket"
    by (simp add: invalidS3_def emptyBucket_def truthy_def)
  from SsmSessionManagerSettings_throws[OF unused_Nil bad, where ident = "''Settings''" and env = exampleEnv]
  show ?thesis
    by (simp add: objectWriteStatements_def agentPolicyDocument_def tryFindChild_def cloudWatchNodes_def)
       (simp add: emptyBucket_def)
qed


lemma tryFindChild_append_found:
  "tryFindChild p t \<noteq> None \<Longrightarrow> tryFindChild p (t @ u) = tryFindChild p t"
  by (auto simp: tryFindChild_def map_add_def split: option.splits)

lemma tryFindChild_append_missing:
  "tryFindChild p t = None \<Longrightarrow> tryFindChild p (t @ u) = tryFindChild p u"
  by (auto simp: tryFindChild_def map_add_def split: option.splits)

lemma declarationsAt_missing:
  "tryFindChild p t = None \<Longrightarrow> declarationsAt p t = []"
  by (induction t) (auto simp: tryFindChild_def declarationsAt_def split: if_splits)

lemma unused_found:
  "unused ident t \<Longrightarrow> tryFindChild [q] t \<noteq> None \<Longrightarrow> ident \<noteq> q"
  using unused_map_of[of ident t "[]"] by (auto simp: tryFindChild_def)

lemma settings_found:
  assumes "unused ident t0" and "SsmSessionManagerSettings env ident props t0 = (Inr x, t)"
  shows "tryFindChild [ident, ''Resource''] t = Some (snd (settingsNode ident props))"
  by (subst SsmSessionManagerSettings_Inr_tree(2)[OF assms], subst unused_tryFindChild[OF assms(1)])
     (simp add: tryFindChild_def cloudWatchNodes_def sessionNodes_def providerNode_def
        settingsNode_def)

lemma ids_distinct:
  "providerId \<noteq> handlerLogGroupId"
  by (simp add: providerId_def handlerLogGroupId_def)

lemma handler_log_group_found:
  assumes "unused ident t0" and "SsmSessionManagerSettings env ident props t0 = (Inr x, t)"
  shows "tryFindChild [handlerLogGroupId] t \<noteq> None"
proof (cases "tryFindChild [handlerLogGroupId] t0")
  case (Some c)
  then show ?thesis
    by (subst SsmSessionManagerSettings_Inr_tree(2)[OF assms]) (simp add: tryFindChild_append_found)
next
  case None
  then have none: "map_of t0 [handlerLogGroupId] = None"
    by (simp add: tryFindChild_def)
  show ?thesis
    by (subst SsmSessionManagerSettings_Inr_tree(2)[OF assms], subst tryFindChild_append_missing[OF None])
       (simp add: none tryFindChild_def cloudWatchNodes_def sessionNodes_def providerNode_def
          settingsNode_def handlerLogGroupNode_def ids_distinct[symmetric])
qed

lemma handler_log_group_declarations:
  assumes "unused ident t0" and "SsmSessionManagerSettings env ident props t0 = (Inr x, t)"
      and "ident \<noteq> handlerLogGroupId"
  shows "declarationsAt [handlerLogGroupId] t =
           declarationsAt [handlerLogGroupId] t0
           @ (if tryFindChild [handlerLogGroupId] t0 = None then [handlerLogGroupNode props] else [])"
  using assms(3)
  by (subst SsmSessionManagerSettings_Inr_tree(2)[OF assms(1,2)])
     (simp add: declarationsAt_def cloudWatchNodes_def sessionNodes_def providerNode_def
        settingsNode_def handlerLogGroupNode_def ids_distinct)

text \<open>
  C7. Two instances in one stack, the second constructed on the tree the first has left.
  After the first the stack has a child under the fixed id of the handler's log group.
  The second finds that child and declares none: the child found under the id and the
  declarations under the id are the same after the second call as before it, and the
  custom resources of both instances depend on the one path. If the stack had no such
  child before the first call, the single declaration is the log group the first call
  has made, with the retention and the key of the first configuration.
\<close>

theorem handler_log_group_declared_once:
  assumes "unused ident1 t0"
      and "SsmSessionManagerSettings env ident1 props1 t0 = (Inr x1, t1)"
      and "unused ident2 t1"
      and "SsmSessionManagerSettings env ident2 props2 t1 = (Inr x2, t2)"
  shows "tryFindChild [handlerLogGroupId] t1 \<noteq> None
       \<and> tryFindChild [handlerLogGroupId] t2 = tryFindChild [handlerLogGroupId] t1
       \<and> declarationsAt [handlerLogGroupId] t2 = declarationsAt [handlerLogGroupId] t1
       \<and> customResourceDependencies (tryFindChild [ident1, ''Resource''] t2) = [[handlerLogGroupId]]
       \<and> customResourceDependencies (tryFindChild [ident2, ''Resource''] t2) = [[handlerLogGroupId]]
       \<and> (tryFindChild [handlerLogGroupId] t0 = None \<and> ident1 \<noteq> handlerLogGroupId \<longrightarrow>
            declarationsAt [handlerLogGroupId] t2 = [handlerLogGroupNode props1])"
proof -
  have found: "tryFindChild [handlerLogGroupId] t1 \<noteq> None"
    using assms(1,2) by (rule handler_log_group_found)
  have ne2: "ident2 \<noteq> handlerLogGroupId"
    using assms(3) found by (rule unused_found)
  obtain rest where t2: "t2 = t1 @ rest"
    using SsmSessionManagerSettings_Inr_tree(2)[OF assms(3,4)] by simp
  have same: "tryFindChild [handlerLogGroupId] t2 = tryFindChild [handlerLogGroupId] t1"
    unfolding t2 using found by (rule tryFindChild_append_found)
  have decl: "declarationsAt [handlerLogGroupId] t2 = declarationsAt [handlerLogGroupId] t1"
    using handler_log_group_declarations[OF assms(3,4) ne2] found by simp
  have s1: "tryFindChild [ident1, ''Resource''] t1 = Some (snd (settingsNode ident1 props1))"
    using assms(1,2) by (rule settings_found)
  have d1: "customResourceDependencies (tryFindChild [ident1, ''Resource''] t2) = [[handlerLogGroupId]]"
    unfolding t2 by (simp add: tryFindChild_append_found s1) (simp add: settingsNode_def)
  have d2: "customResourceDependencies (tryFindChild [ident2, ''Resource''] t2) = [[handlerLogGroupId]]"
    by (simp add: settings_found[OF assms(3,4)]) (simp add: settingsNode_def)
  have first: "declarationsAt [handlerLogGroupId] t2 = [handlerLogGroupNode props1]"
    if "tryFindChild [handlerLogGroupId] t0 = None" and "ident1 \<noteq> handlerLogGroupId"
    using handler_log_group_declarations[OF assms(1,2) that(2)] that(1) decl
    by (simp add: declarationsAt_missing)
  show ?thesis
    using found same decl d1 d2 first by blast
qed

theorem handler_log_group_declared_once_witness:
  "unused ''First'' []
   \<and> fst (SsmSessionManagerSettings exampleEnv ''First'' bothDestinations [])
        = Inr (Attr [''First'', ''Resource''] ''Ref'')
   \<and> unused ''Second'' (snd (SsmSessionManagerSettings exampleEnv ''First'' bothDestinations []))
   \<and> fst (SsmSessionManagerSettings exampleEnv ''Second'' noDestination
             (snd (SsmSessionManagerSettings exampleEnv ''First'' bothDestinations [])))
        = Inr (Attr [''Second'', ''Resource''] ''Ref'')
   \<and> tryFindChild [handlerLogGroupId] [] = None \<and> ''First'' \<noteq> handlerLogGroupId
   \<and> declarationsAt [handlerLogGroupId]
        (snd (SsmSessionManagerSettings exampleEnv ''Second'' noDestination
                (snd (SsmSessionManagerSettings exampleEnv ''First'' bothDestinations []))))
      = [handlerLogGroupNode bothDestinations]"
proof -
  have ok1: "\<not> invalidS3 bothDestinations"
    by (simp add: invalidS3_def bothDestinations_def truthy_def)
  have ok2: "\<not> invalidS3 noDestination"
    by (simp add: invalidS3_def noDestination_def)
  have f1: "fst (SsmSessionManagerSettings exampleEnv ''First'' bothDestinations [])
              = Inr (Attr [''First'', ''Resource''] ''Ref'')"
    by (simp add: SsmSessionManagerSettings_returns[OF unused_Nil ok1 retention_bothDestinations])
  then have r1: "SsmSessionManagerSettings exampleEnv ''First'' bothDestinations []
              = (Inr (Attr [''First'', ''Resource''] ''Ref''),
                 snd (SsmSessionManagerSettings exampleEnv ''First'' bothDestinations []))"
    by (simp add: prod_eq_iff)
  have u2: "unused ''Second'' (snd (SsmSessionManagerSettings exampleEnv ''First'' bothDestinations []))"
    by (auto simp: SsmSessionManagerSettings_returns[OF unused_Nil ok1 retention_bothDestinations] unused_def cloudWatchNodes_def
          sessionNodes_def providerNode_def settingsNode_def handlerLogGroupNode_def
          providerId_def handlerLogGroupId_def tryFindChild_def)
  have f2: "fst (SsmSessionManagerSettings exampleEnv ''Second'' noDestination
             (snd (SsmSessionManagerSettings exampleEnv ''First'' bothDestinations [])))
              = Inr (Attr [''Second'', ''Resource''] ''Ref'')"
    by (simp add: SsmSessionManagerSettings_returns[OF u2 ok2 retention_noDestination])
  then have r2: "SsmSessionManagerSettings exampleEnv ''Second'' noDestination
             (snd (SsmSessionManagerSettings exampleEnv ''First'' bothDestinations []))
              = (Inr (Attr [''Second'', ''Resource''] ''Ref''),
                 snd (SsmSessionManagerSettings exampleEnv ''Second'' noDestination
                        (snd (SsmSessionManagerSettings exampleEnv ''First'' bothDestinations []))))"
    by (simp add: prod_eq_iff)
  have e: "tryFindChild [handlerLogGroupId] [] = None"
    by (simp add: tryFindChild_def)
  have n: "''First'' \<noteq> handlerLogGroupId"
    by (simp add: handlerLogGroupId_def)
  note m = handler_log_group_declared_once[OF unused_Nil r1 u2 r2]
  have d: "declarationsAt [handlerLogGroupId]
        (snd (SsmSessionManagerSettings exampleEnv ''Second'' noDestination
                (snd (SsmSessionManagerSettings exampleEnv ''First'' bothDestinations []))))
      = [handlerLogGroupNode bothDestinations]"
    using m e n by blast
  show ?thesis
    by (intro conjI unused_Nil f1 u2 f2 e n d)
qed


end
